theory Spec2Isabelle
  imports Complex_Main "HOL-Library.AList" "HOL-Library.Char_ord" "HOL-Library.List_Lexorder"
begin

section \<open>Category encoding and feature assembly of the damage prediction form\<close>

text \<open>
  The development embeds the part of \<^verbatim>\<open>app.py\<close> that turns the form's inputs into the
  array handed to the two models: the loop that fits one label encoder per text column of
  the reference table, the per-language option dictionaries, the two dictionary lookups
  behind the select boxes, the array \<^verbatim>\<open>X\<close> and the dictionary \<^verbatim>\<open>damage_map\<close>.

  Strings are byte lists: a Python \<^verbatim>\<open>str\<close> is represented by its UTF-8 encoding. Two
  Python strings are equal exactly when their encodings are, and the lexicographic order of
  the encodings (the order that \<^verbatim>\<open>List_Lexorder\<close> puts on \<^typ>\<open>string\<close>) is
  Python's order on \<^verbatim>\<open>str\<close>, which compares code points. Python raising an exception
  is a value \<open>Inl e\<close> of a sum type.
\<close>

datatype py_error = KeyError | ValueError | IndexError

subsection \<open>The label encoder\<close>

text \<open>
  \<^verbatim>\<open>LabelEncoder\<close> is scikit-learn's class; the application only calls it. The
  definitions below follow the library's code path for a column of Python strings:
  \<^verbatim>\<open>
  def _unique_python(values, *, return_inverse):
      uniques = sorted(set(values))
      if return_inverse: return uniques, _map_to_integer(values, uniques)
      return uniques
  def _map_to_integer(values, uniques):
      table = {val: i for i, val in enumerate(uniques)}
      return np.array([table[v] for v in values])
  def _encode(values, *, uniques):
      try: return _map_to_integer(values, uniques)
      except KeyError as e: raise ValueError("y contains previously unseen labels")
  class LabelEncoder:
      def fit_transform(self, y): self.classes_, y = _unique(y, return_inverse=True); return y
      def transform(self, y):
          if _num_samples(y) == 0: return np.array([])
          return _encode(y, uniques=self.classes_)
      def inverse_transform(self, y):
          if _num_samples(y) == 0: return np.array([])
          diff = np.setdiff1d(y, np.arange(len(self.classes_)))
          if len(diff): raise ValueError("y contains previously unseen labels")
          return self.classes_[y]
  \<close>
  The application never calls \<^verbatim>\<open>inverse_transform\<close>; it is the decoding direction
  that every fitted encoder offers. The attribute \<^verbatim>\<open>classes_\<close> is the field \<open>classes\<close>,
  codes are natural numbers, and \<open>lookup_all\<close> is the list comprehension over
  \<^verbatim>\<open>table[v]\<close>, which stops at the first missing key.
\<close>

record label_encoder =
  classes :: "string list"

definition unique_python :: "string list \<Rightarrow> string list" where
  "unique_python vals = sort (remdups vals)"

definition label_table :: "string list \<Rightarrow> (string \<rightharpoonup> nat)" where
  "label_table uniques =
     fold (\<lambda>(i, val) table. table(val \<mapsto> i)) (enumerate 0 uniques) Map.empty"

fun lookup_all :: "(string \<rightharpoonup> nat) \<Rightarrow> string list \<Rightarrow> py_error + nat list" where
  "lookup_all table [] = Inr []"
| "lookup_all table (v # vs) =
     (case table v of
        None \<Rightarrow> Inl KeyError
      | Some i \<Rightarrow> (case lookup_all table vs of Inl e \<Rightarrow> Inl e | Inr cs \<Rightarrow> Inr (i # cs)))"

definition map_to_integer :: "string list \<Rightarrow> string list \<Rightarrow> py_error + nat list" where
  "map_to_integer vals uniques = lookup_all (label_table uniques) vals"

definition encode_values :: "string list \<Rightarrow> string list \<Rightarrow> py_error + nat list" where
  "encode_values vals uniques =
     (case map_to_integer vals uniques of
        Inl KeyError \<Rightarrow> Inl ValueError
      | Inl e \<Rightarrow> Inl e
      | Inr cs \<Rightarrow> Inr cs)"

definition fit_transform :: "string list \<Rightarrow> py_error + (label_encoder \<times> nat list)" where
  "fit_transform y =
     (let uniques = unique_python y in
      case map_to_integer y uniques of
        Inl e \<Rightarrow> Inl e
      | Inr cs \<Rightarrow> Inr (\<lparr>classes = uniques\<rparr>, cs))"

definition transform :: "label_encoder \<Rightarrow> string list \<Rightarrow> py_error + nat list" where
  "transform le y = (if y = [] then Inr [] else encode_values y (classes le))"

definition inverse_transform :: "label_encoder \<Rightarrow> int list \<Rightarrow> py_error + string list" where
  "inverse_transform le y =
     (if y = [] then Inr []
      else if list_ex (\<lambda>c. c < 0 \<or> int (length (classes le)) \<le> c) y then Inl ValueError
      else Inr (map (\<lambda>c. classes le ! nat c) y))"

subsection \<open>The reference table and the encoder registry\<close>

text \<open>
  \<^verbatim>\<open>
  data = pd.read_csv("building_damage.csv")
  data = data.drop("Unnamed: 0", axis=1)
  encoders = {}
  for col in data.columns:
      if data[col].dtype == "object":
          le = LabelEncoder()
          data[col] = le.fit_transform(data[col])
          encoders[col] = le
  \<close>
  A data frame is the list of its columns in order, each with its name; a column of dtype
  \<^verbatim>\<open>object\<close> holds strings, the other columns hold numbers. \<^verbatim>\<open>read_csv\<close> gives every
  column a name of its own, which the theorems state as \<open>distinct (map fst data)\<close>.
  \<^verbatim>\<open>drop\<close> raises \<^verbatim>\<open>KeyError\<close> for a label that names no column.
\<close>

datatype column = ObjectCol "string list" | IntCol "int list" | FloatCol "real list"

type_synonym dataframe = "(string \<times> column) list"

type_synonym encoders = "string \<rightharpoonup> label_encoder"

definition drop_column :: "string \<Rightarrow> dataframe \<Rightarrow> py_error + dataframe" where
  "drop_column label data =
     (if label \<in> set (map fst data) then Inr (filter (\<lambda>(name, c). name \<noteq> label) data)
      else Inl KeyError)"

fun build_loop :: "string list \<Rightarrow> dataframe \<Rightarrow> encoders \<Rightarrow> py_error + (dataframe \<times> encoders)" where
  "build_loop [] data encoders = Inr (data, encoders)"
| "build_loop (col # cols) data encoders =
     (case map_of data col of
        None \<Rightarrow> Inl KeyError
      | Some (ObjectCol y) \<Rightarrow>
          (case fit_transform y of
             Inl e \<Rightarrow> Inl e
           | Inr (le, codes) \<Rightarrow>
               build_loop cols (AList.update col (IntCol (map int codes)) data) (encoders(col \<mapsto> le)))
      | Some other \<Rightarrow> build_loop cols data encoders)"

definition build_encoders :: "dataframe \<Rightarrow> py_error + (dataframe \<times> encoders)" where
  "build_encoders data = build_loop (map fst data) data Map.empty"

definition load_reference :: "dataframe \<Rightarrow> py_error + (dataframe \<times> encoders)" where
  "load_reference csv =
     (case drop_column ''Unnamed: 0'' csv of
        Inl e \<Rightarrow> Inl e
      | Inr data \<Rightarrow> build_encoders data)"

subsection \<open>The option dictionaries\<close>

text \<open>
  \<^verbatim>\<open>OCC_TYPES_BY_LANG\<close> and \<^verbatim>\<open>STRUCT_TYPES_BY_LANG\<close> are dictionary literals: one
  entry per language code, each a dictionary from the label shown in the select box to
  the occupancy codes of that family, or to the structural code. A dictionary literal is
  the list of its entries in the order written; the labels are the UTF-8 bytes of the
  source's text. Each language's dictionary has a name of its own here.
\<close>

definition OCC_TYPES_en :: "(string \<times> string list) list" where
  "OCC_TYPES_en =
    [(''Residential'', [''RES1'', ''RES3'', ''RES4'']),
     (''Commercial'', [''COM1'', ''COM2'', ''COM3'', ''COM4'', ''COM7'', ''COM8'']),
     (''Industrial'', [''IND1'', ''IND2'', ''IND3'']),
     (''Agricultural'', [''AGR1'']),
     (''Educational'', [''EDU1'']),
     (''Religious'', [''REL1'']),
     (''Governmental'', [''GOV1''])]"

definition OCC_TYPES_tr :: "(string \<times> string list) list" where
  "OCC_TYPES_tr =
    [(''Konut (Residential)'', [''RES1'', ''RES3'', ''RES4'']),
     (''Ticari (Commercial)'', [''COM1'', ''COM2'', ''COM3'', ''COM4'', ''COM7'', ''COM8'']),
     (''End'' @ [CHR 0xC3, CHR 0xBC] @ ''striyel (Industrial)'', [''IND1'', ''IND2'', ''IND3'']),
     (''Tar'' @ [CHR 0xC4, CHR 0xB1] @ ''msal (Agricultural)'', [''AGR1'']),
     (''E'' @ [CHR 0xC4, CHR 0x9F] @ ''itim (Educational)'', [''EDU1'']),
     (''Dini (Religious)'', [''REL1'']),
     (''Kamu (Governmental)'', [''GOV1''])]"

definition OCC_TYPES_fr :: "(string \<times> string list) list" where
  "OCC_TYPES_fr =
    [(''R'' @ [CHR 0xC3, CHR 0xA9] @ ''sidentiel'', [''RES1'', ''RES3'', ''RES4'']),
     (''Commercial'', [''COM1'', ''COM2'', ''COM3'', ''COM4'', ''COM7'', ''COM8'']),
     (''Industriel'', [''IND1'', ''IND2'', ''IND3'']),
     (''Agricole'', [''AGR1'']),
     ([CHR 0xC3, CHR 0x89] @ ''ducatif'', [''EDU1'']),
     (''Religieux'', [''REL1'']),
     (''Gouvernemental'', [''GOV1''])]"

definition OCC_TYPES_de :: "(string \<times> string list) list" where
  "OCC_TYPES_de =
    [(''Wohngeb'' @ [CHR 0xC3, CHR 0xA4] @ ''ude'', [''RES1'', ''RES3'', ''RES4'']),
     (''Gewerblich'', [''COM1'', ''COM2'', ''COM3'', ''COM4'', ''COM7'', ''COM8'']),
     (''Industriell'', [''IND1'', ''IND2'', ''IND3'']),
     (''Landwirtschaftlich'', [''AGR1'']),
     (''Bildungseinrichtung'', [''EDU1'']),
     (''Religi'' @ [CHR 0xC3, CHR 0xB6] @ ''s'', [''REL1'']),
     (''Staatlich'', [''GOV1''])]"

definition OCC_TYPES_zh :: "(string \<times> string list) list" where
  "OCC_TYPES_zh =
    [([CHR 0xE4, CHR 0xBD, CHR 0x8F, CHR 0xE5, CHR 0xAE,
       CHR 0x85] @ '' (Residential)'', [''RES1'', ''RES3'', ''RES4'']),
     ([CHR 0xE5, CHR 0x95, CHR 0x86, CHR 0xE4, CHR 0xB8,
        CHR 0x9A] @ '' (Commercial)'', [''COM1'', ''COM2'', ''COM3'', ''COM4'', ''COM7'', ''COM8'']),
     ([CHR 0xE5, CHR 0xB7, CHR 0xA5, CHR 0xE4, CHR 0xB8,
        CHR 0x9A] @ '' (Industrial)'', [''IND1'', ''IND2'', ''IND3'']),
     ([CHR 0xE5, CHR 0x86, CHR 0x9C, CHR 0xE4, CHR 0xB8,
        CHR 0x9A] @ '' (Agricultural)'', [''AGR1'']),
     ([CHR 0xE6, CHR 0x95, CHR 0x99, CHR 0xE8, CHR 0x82,
        CHR 0xB2] @ '' (Educational)'', [''EDU1'']),
     ([CHR 0xE5, CHR 0xAE, CHR 0x97, CHR 0xE6, CHR 0x95, CHR 0x99] @ '' (Religious)'', [''REL1'']),
     ([CHR 0xE6, CHR 0x94, CHR 0xBF, CHR 0xE5, CHR 0xBA,
        CHR 0x9C] @ '' (Governmental)'', [''GOV1''])]"

definition OCC_TYPES_ru :: "(string \<times> string list) list" where
  "OCC_TYPES_ru =
    [([CHR 0xD0, CHR 0x96, CHR 0xD0, CHR 0xB8, CHR 0xD0, CHR 0xBB, CHR 0xD0, CHR 0xBE, CHR 0xD0,
       CHR 0xB5] @ '' (Residential)'', [''RES1'', ''RES3'', ''RES4'']),
     ([CHR 0xD0, CHR 0x9A, CHR 0xD0, CHR 0xBE, CHR 0xD0, CHR 0xBC, CHR 0xD0, CHR 0xBC, CHR 0xD0,
        CHR 0xB5, CHR 0xD1, CHR 0x80, CHR 0xD1, CHR 0x87, CHR 0xD0, CHR 0xB5, CHR 0xD1, CHR 0x81,
        CHR 0xD0, CHR 0xBA, CHR 0xD0, CHR 0xBE, CHR 0xD0,
        CHR 0xB5] @ '' (Commercial)'', [''COM1'', ''COM2'', ''COM3'', ''COM4'', ''COM7'', ''COM8'']),
     ([CHR 0xD0, CHR 0x9F, CHR 0xD1, CHR 0x80, CHR 0xD0, CHR 0xBE, CHR 0xD0, CHR 0xBC, CHR 0xD1,
        CHR 0x8B, CHR 0xD1, CHR 0x88, CHR 0xD0, CHR 0xBB, CHR 0xD0, CHR 0xB5, CHR 0xD0, CHR 0xBD,
        CHR 0xD0, CHR 0xBD, CHR 0xD0, CHR 0xBE, CHR 0xD0,
        CHR 0xB5] @ '' (Industrial)'', [''IND1'', ''IND2'', ''IND3'']),
     ([CHR 0xD0, CHR 0xA1, CHR 0xD0, CHR 0xB5, CHR 0xD0, CHR 0xBB, CHR 0xD1, CHR 0x8C, CHR 0xD1,
        CHR 0x81, CHR 0xD0, CHR 0xBA, CHR 0xD0, CHR 0xBE, CHR 0xD1, CHR 0x85, CHR 0xD0, CHR 0xBE,
        CHR 0xD0, CHR 0xB7, CHR 0xD1, CHR 0x8F, CHR 0xD0, CHR 0xB9, CHR 0xD1, CHR 0x81, CHR 0xD1,
        CHR 0x82, CHR 0xD0, CHR 0xB2, CHR 0xD0, CHR 0xB5, CHR 0xD0, CHR 0xBD, CHR 0xD0, CHR 0xBD,
        CHR 0xD0, CHR 0xBE, CHR 0xD0, CHR 0xB5] @ '' (Agricultural)'', [''AGR1'']),
     ([CHR 0xD0, CHR 0x9E, CHR 0xD0, CHR 0xB1, CHR 0xD1, CHR 0x80, CHR 0xD0, CHR 0xB0, CHR 0xD0,
        CHR 0xB7, CHR 0xD0, CHR 0xBE, CHR 0xD0, CHR 0xB2, CHR 0xD0, CHR 0xB0, CHR 0xD1, CHR 0x82,
        CHR 0xD0, CHR 0xB5, CHR 0xD0, CHR 0xBB, CHR 0xD1, CHR 0x8C, CHR 0xD0, CHR 0xBD, CHR 0xD0,
        CHR 0xBE, CHR 0xD0, CHR 0xB5] @ '' (Educational)'', [''EDU1'']),
     ([CHR 0xD0, CHR 0xA0, CHR 0xD0, CHR 0xB5, CHR 0xD0, CHR 0xBB, CHR 0xD0, CHR 0xB8, CHR 0xD0,
        CHR 0xB3, CHR 0xD0, CHR 0xB8, CHR 0xD0, CHR 0xBE, CHR 0xD0, CHR 0xB7, CHR 0xD0, CHR 0xBD,
        CHR 0xD0, CHR 0xBE, CHR 0xD0, CHR 0xB5] @ '' (Religious)'', [''REL1'']),
     ([CHR 0xD0, CHR 0x93, CHR 0xD0, CHR 0xBE, CHR 0xD1, CHR 0x81, CHR 0xD1, CHR 0x83, CHR 0xD0,
        CHR 0xB4, CHR 0xD0, CHR 0xB0, CHR 0xD1, CHR 0x80, CHR 0xD1, CHR 0x81, CHR 0xD1, CHR 0x82,
        CHR 0xD0, CHR 0xB2, CHR 0xD0, CHR 0xB5, CHR 0xD0, CHR 0xBD, CHR 0xD0, CHR 0xBD, CHR 0xD0,
        CHR 0xBE, CHR 0xD0, CHR 0xB5] @ '' (Governmental)'', [''GOV1''])]"

definition OCC_TYPES_fa :: "(string \<times> string list) list" where
  "OCC_TYPES_fa =
    [([CHR 0xD9, CHR 0x85, CHR 0xD8, CHR 0xB3, CHR 0xDA, CHR 0xA9, CHR 0xD9, CHR 0x88, CHR 0xD9,
       CHR 0x86, CHR 0xDB, CHR 0x8C], [''RES1'', ''RES3'', ''RES4'']),
     ([CHR 0xD8, CHR 0xAA, CHR 0xD8, CHR 0xAC, CHR 0xD8, CHR 0xA7, CHR 0xD8, CHR 0xB1, CHR 0xDB,
        CHR 0x8C], [''COM1'', ''COM2'', ''COM3'', ''COM4'', ''COM7'', ''COM8'']),
     ([CHR 0xD8, CHR 0xB5, CHR 0xD9, CHR 0x86, CHR 0xD8, CHR 0xB9, CHR 0xD8, CHR 0xAA, CHR 0xDB,
        CHR 0x8C], [''IND1'', ''IND2'', ''IND3'']),
     ([CHR 0xDA, CHR 0xA9, CHR 0xD8, CHR 0xB4, CHR 0xD8, CHR 0xA7, CHR 0xD9, CHR 0x88, CHR 0xD8,
        CHR 0xB1, CHR 0xD8, CHR 0xB2, CHR 0xDB, CHR 0x8C], [''AGR1'']),
     ([CHR 0xD8, CHR 0xA2, CHR 0xD9, CHR 0x85, CHR 0xD9, CHR 0x88, CHR 0xD8, CHR 0xB2, CHR 0xD8,
        CHR 0xB4, CHR 0xDB, CHR 0x8C], [''EDU1'']),
     ([CHR 0xD9, CHR 0x85, CHR 0xD8, CHR 0xB0, CHR 0xD9, CHR 0x87, CHR 0xD8, CHR 0xA8, CHR 0xDB,
        CHR 0x8C], [''REL1'']),
     ([CHR 0xD8, CHR 0xAF, CHR 0xD9, CHR 0x88, CHR 0xD9, CHR 0x84, CHR 0xD8, CHR 0xAA, CHR 0xDB,
        CHR 0x8C], [''GOV1''])]"

definition OCC_TYPES_ar :: "(string \<times> string list) list" where
  "OCC_TYPES_ar =
    [([CHR 0xD8, CHR 0xB3, CHR 0xD9, CHR 0x83, CHR 0xD9, CHR 0x86, CHR 0xD9,
       CHR 0x8A], [''RES1'', ''RES3'', ''RES4'']),
     ([CHR 0xD8, CHR 0xAA, CHR 0xD8, CHR 0xAC, CHR 0xD8, CHR 0xA7, CHR 0xD8, CHR 0xB1, CHR 0xD9,
        CHR 0x8A], [''COM1'', ''COM2'', ''COM3'', ''COM4'', ''COM7'', ''COM8'']),
     ([CHR 0xD8, CHR 0xB5, CHR 0xD9, CHR 0x86, CHR 0xD8, CHR 0xA7, CHR 0xD8, CHR 0xB9, CHR 0xD9,
        CHR 0x8A], [''IND1'', ''IND2'', ''IND3'']),
     ([CHR 0xD8, CHR 0xB2, CHR 0xD8, CHR 0xB1, CHR 0xD8, CHR 0xA7, CHR 0xD8, CHR 0xB9, CHR 0xD9,
        CHR 0x8A], [''AGR1'']),
     ([CHR 0xD8, CHR 0xAA, CHR 0xD8, CHR 0xB9, CHR 0xD9, CHR 0x84, CHR 0xD9, CHR 0x8A, CHR 0xD9,
        CHR 0x85, CHR 0xD9, CHR 0x8A], [''EDU1'']),
     ([CHR 0xD8, CHR 0xAF, CHR 0xD9, CHR 0x8A, CHR 0xD9, CHR 0x86, CHR 0xD9, CHR 0x8A], [''REL1'']),
     ([CHR 0xD8, CHR 0xAD, CHR 0xD9, CHR 0x83, CHR 0xD9, CHR 0x88, CHR 0xD9, CHR 0x85, CHR 0xD9,
        CHR 0x8A], [''GOV1''])]"

definition OCC_TYPES_BY_LANG :: "(string \<times> (string \<times> string list) list) list" where
  "OCC_TYPES_BY_LANG =
    [(''en'', OCC_TYPES_en),
     (''tr'', OCC_TYPES_tr),
     (''fr'', OCC_TYPES_fr),
     (''de'', OCC_TYPES_de),
     (''zh'', OCC_TYPES_zh),
     (''ru'', OCC_TYPES_ru),
     (''fa'', OCC_TYPES_fa),
     (''ar'', OCC_TYPES_ar)]"

definition STRUCT_TYPES_en :: "(string \<times> string) list" where
  "STRUCT_TYPES_en =
    [(''Unreinforced Masonry (URM)'', ''URM''),
     (''Steel Moment Frame (S1)'', ''S1''),
     (''Reinforced Concrete Moment Frame (C4)'', ''C4''),
     (''Wooden Frame (W1)'', ''W1''),
     (''Precast Concrete (PC1)'', ''PC1''),
     (''Reinforced Concrete Shear Wall (C1)'', ''C1'')]"

definition STRUCT_TYPES_tr :: "(string \<times> string) list" where
  "STRUCT_TYPES_tr =
    [(''Y'' @ [CHR 0xC4, CHR 0xB1, CHR 0xC4, CHR 0x9F] @ ''ma (URM)'', ''URM''),
     ([CHR 0xC3, CHR 0x87] @ ''elik Moment '' @ [CHR 0xC3, CHR 0x87] @ ''er'' @ [CHR 0xC3,
        CHR 0xA7] @ ''eve (S1)'', ''S1''),
     (''Betonarme Moment '' @ [CHR 0xC3, CHR 0x87] @ ''er'' @ [CHR 0xC3,
        CHR 0xA7] @ ''eve (C4)'', ''C4''),
     (''Ah'' @ [CHR 0xC5, CHR 0x9F] @ ''ap '' @ [CHR 0xC3, CHR 0x87] @ ''er'' @ [CHR 0xC3,
        CHR 0xA7] @ ''eve (W1)'', ''W1''),
     ([CHR 0xC3, CHR 0x96] @ ''n D'' @ [CHR 0xC3, CHR 0xB6] @ ''k'' @ [CHR 0xC3,
        CHR 0xBC] @ ''ml'' @ [CHR 0xC3, CHR 0xBC] @ '' Beton (PC1)'', ''PC1''),
     (''Betonarme Perde Duvar (C1)'', ''C1'')]"

definition STRUCT_TYPES_fr :: "(string \<times> string) list" where
  "STRUCT_TYPES_fr =
    [(''Ma'' @ [CHR 0xC3, CHR 0xA7] @ ''onnerie non arm'' @ [CHR 0xC3,
       CHR 0xA9] @ ''e (URM)'', ''URM''),
     (''Charpente m'' @ [CHR 0xC3, CHR 0xA9] @ ''tallique '' @ [CHR 0xC3,
        CHR 0xA0] @ '' portique (S1)'', ''S1''),
     (''Portique en b'' @ [CHR 0xC3, CHR 0xA9] @ ''ton arm'' @ [CHR 0xC3,
        CHR 0xA9] @ '' (C4)'', ''C4''),
     (''Structure en bois (W1)'', ''W1''),
     (''B'' @ [CHR 0xC3, CHR 0xA9] @ ''ton pr'' @ [CHR 0xC3, CHR 0xA9] @ ''fabriqu'' @ [CHR 0xC3,
        CHR 0xA9] @ '' (PC1)'', ''PC1''),
     (''Voiles en b'' @ [CHR 0xC3, CHR 0xA9] @ ''ton arm'' @ [CHR 0xC3,
        CHR 0xA9] @ '' (C1)'', ''C1'')]"

definition STRUCT_TYPES_de :: "(string \<times> string) list" where
  "STRUCT_TYPES_de =
    [(''Unbewehrtes Mauerwerk (URM)'', ''URM''),
     (''Stahlmomentrahmen (S1)'', ''S1''),
     (''Stahlbetonmomentrahmen (C4)'', ''C4''),
     (''Holzrahmen (W1)'', ''W1''),
     (''Fertigbetonbau (PC1)'', ''PC1''),
     (''Stahlbeton-Scheibenwand (C1)'', ''C1'')]"

definition STRUCT_TYPES_zh :: "(string \<times> string) list" where
  "STRUCT_TYPES_zh =
    [([CHR 0xE6, CHR 0x9C, CHR 0xAA, CHR 0xE5, CHR 0x8A, CHR 0xA0, CHR 0xE5, CHR 0x9B, CHR 0xBA,
       CHR 0xE7, CHR 0xA0, CHR 0x8C, CHR 0xE4, CHR 0xBD, CHR 0x93, CHR 0xE7, CHR 0xBB, CHR 0x93,
       CHR 0xE6, CHR 0x9E, CHR 0x84] @ '' (URM)'', ''URM''),
     ([CHR 0xE9, CHR 0x92, CHR 0xA2, CHR 0xE6, CHR 0xA1, CHR 0x86, CHR 0xE6, CHR 0x9E, CHR 0xB6,
        CHR 0xE7, CHR 0xBB, CHR 0x93, CHR 0xE6, CHR 0x9E, CHR 0x84] @ '' (S1)'', ''S1''),
     ([CHR 0xE9, CHR 0x92, CHR 0xA2, CHR 0xE7, CHR 0xAD, CHR 0x8B, CHR 0xE6, CHR 0xB7, CHR 0xB7,
        CHR 0xE5, CHR 0x87, CHR 0x9D, CHR 0xE5, CHR 0x9C, CHR 0x9F, CHR 0xE6, CHR 0xA1, CHR 0x86,
        CHR 0xE6, CHR 0x9E, CHR 0xB6] @ '' (C4)'', ''C4''),
     ([CHR 0xE6, CHR 0x9C, CHR 0xA8, CHR 0xE7, CHR 0xBB, CHR 0x93, CHR 0xE6, CHR 0x9E, CHR 0x84,
        CHR 0xE6, CHR 0xA1, CHR 0x86, CHR 0xE6, CHR 0x9E, CHR 0xB6] @ '' (W1)'', ''W1''),
     ([CHR 0xE9, CHR 0xA2, CHR 0x84, CHR 0xE5, CHR 0x88, CHR 0xB6, CHR 0xE6, CHR 0xB7, CHR 0xB7,
        CHR 0xE5, CHR 0x87, CHR 0x9D, CHR 0xE5, CHR 0x9C, CHR 0x9F, CHR 0xE7, CHR 0xBB, CHR 0x93,
        CHR 0xE6, CHR 0x9E, CHR 0x84] @ '' (PC1)'', ''PC1''),
     ([CHR 0xE9, CHR 0x92, CHR 0xA2, CHR 0xE7, CHR 0xAD, CHR 0x8B, CHR 0xE6, CHR 0xB7, CHR 0xB7,
        CHR 0xE5, CHR 0x87, CHR 0x9D, CHR 0xE5, CHR 0x9C, CHR 0x9F, CHR 0xE5, CHR 0x89, CHR 0xAA,
        CHR 0xE5, CHR 0x8A, CHR 0x9B, CHR 0xE5, CHR 0xA2, CHR 0x99] @ '' (C1)'', ''C1'')]"

definition STRUCT_TYPES_ru :: "(string \<times> string) list" where
  "STRUCT_TYPES_ru =
    [([CHR 0xD0, CHR 0x9D, CHR 0xD0, CHR 0xB5, CHR 0xD0, CHR 0xBD, CHR 0xD0, CHR 0xB0, CHR 0xD1,
       CHR 0x80, CHR 0xD0, CHR 0xBC, CHR 0xD0, CHR 0xB8, CHR 0xD1, CHR 0x80, CHR 0xD0, CHR 0xBE,
       CHR 0xD0, CHR 0xB2, CHR 0xD0, CHR 0xB0, CHR 0xD0, CHR 0xBD, CHR 0xD0, CHR 0xBD, CHR 0xD0,
       CHR 0xB0, CHR 0xD1, CHR 0x8F] @ '' '' @ [CHR 0xD0, CHR 0xBA, CHR 0xD0, CHR 0xBB, CHR 0xD0,
       CHR 0xB0, CHR 0xD0, CHR 0xB4, CHR 0xD0, CHR 0xBA, CHR 0xD0,
       CHR 0xB0] @ '' (URM)'', ''URM''),
     ([CHR 0xD0, CHR 0xA1, CHR 0xD1, CHR 0x82, CHR 0xD0, CHR 0xB0, CHR 0xD0, CHR 0xBB, CHR 0xD1,
        CHR 0x8C, CHR 0xD0, CHR 0xBD, CHR 0xD0, CHR 0xBE, CHR 0xD0, CHR 0xB9] @ '' '' @ [CHR 0xD1,
        CHR 0x80, CHR 0xD0, CHR 0xB0, CHR 0xD0, CHR 0xBC, CHR 0xD0, CHR 0xBD, CHR 0xD1, CHR 0x8B,
        CHR 0xD0, CHR 0xB9] @ '' '' @ [CHR 0xD0, CHR 0xBA, CHR 0xD0, CHR 0xB0, CHR 0xD1, CHR 0x80,
        CHR 0xD0, CHR 0xBA, CHR 0xD0, CHR 0xB0, CHR 0xD1, CHR 0x81] @ '' (S1)'', ''S1''),
     ([CHR 0xD0, CHR 0x96, CHR 0xD0, CHR 0xB5, CHR 0xD0, CHR 0xBB, CHR 0xD0, CHR 0xB5, CHR 0xD0,
        CHR 0xB7, CHR 0xD0, CHR 0xBE, CHR 0xD0, CHR 0xB1, CHR 0xD0, CHR 0xB5, CHR 0xD1, CHR 0x82,
        CHR 0xD0, CHR 0xBE, CHR 0xD0, CHR 0xBD, CHR 0xD0, CHR 0xBD, CHR 0xD1, CHR 0x8B, CHR 0xD0,
        CHR 0xB9] @ '' '' @ [CHR 0xD1, CHR 0x80, CHR 0xD0, CHR 0xB0, CHR 0xD0, CHR 0xBC, CHR 0xD0,
        CHR 0xBD, CHR 0xD1, CHR 0x8B, CHR 0xD0, CHR 0xB9] @ '' '' @ [CHR 0xD0, CHR 0xBA, CHR 0xD0,
        CHR 0xB0, CHR 0xD1, CHR 0x80, CHR 0xD0, CHR 0xBA, CHR 0xD0, CHR 0xB0, CHR 0xD1,
        CHR 0x81] @ '' (C4)'', ''C4''),
     ([CHR 0xD0, CHR 0x94, CHR 0xD0, CHR 0xB5, CHR 0xD1, CHR 0x80, CHR 0xD0, CHR 0xB5, CHR 0xD0,
        CHR 0xB2, CHR 0xD1, CHR 0x8F, CHR 0xD0, CHR 0xBD, CHR 0xD0, CHR 0xBD, CHR 0xD1, CHR 0x8B,
        CHR 0xD0, CHR 0xB9] @ '' '' @ [CHR 0xD0, CHR 0xBA, CHR 0xD0, CHR 0xB0, CHR 0xD1, CHR 0x80,
        CHR 0xD0, CHR 0xBA, CHR 0xD0, CHR 0xB0, CHR 0xD1, CHR 0x81] @ '' (W1)'', ''W1''),
     ([CHR 0xD0, CHR 0xA1, CHR 0xD0, CHR 0xB1, CHR 0xD0, CHR 0xBE, CHR 0xD1, CHR 0x80, CHR 0xD0,
        CHR 0xBD, CHR 0xD1, CHR 0x8B, CHR 0xD0, CHR 0xB9] @ '' '' @ [CHR 0xD0, CHR 0xB6, CHR 0xD0,
        CHR 0xB5, CHR 0xD0, CHR 0xBB, CHR 0xD0, CHR 0xB5, CHR 0xD0, CHR 0xB7, CHR 0xD0, CHR 0xBE,
        CHR 0xD0, CHR 0xB1, CHR 0xD0, CHR 0xB5, CHR 0xD1, CHR 0x82, CHR 0xD0, CHR 0xBE, CHR 0xD0,
        CHR 0xBD] @ '' (PC1)'', ''PC1''),
     ([CHR 0xD0, CHR 0x96, CHR 0xD0, CHR 0xB5, CHR 0xD0, CHR 0xBB, CHR 0xD0, CHR 0xB5, CHR 0xD0,
        CHR 0xB7, CHR 0xD0, CHR 0xBE, CHR 0xD0, CHR 0xB1, CHR 0xD0, CHR 0xB5, CHR 0xD1, CHR 0x82,
        CHR 0xD0, CHR 0xBE, CHR 0xD0, CHR 0xBD, CHR 0xD0, CHR 0xBD, CHR 0xD1, CHR 0x8B, CHR 0xD0,
        CHR 0xB5] @ '' '' @ [CHR 0xD1, CHR 0x81, CHR 0xD1, CHR 0x82, CHR 0xD0, CHR 0xB5, CHR 0xD0,
        CHR 0xBD, CHR 0xD1, CHR 0x8B] @ ''-'' @ [CHR 0xD0, CHR 0xB4, CHR 0xD0, CHR 0xB8, CHR 0xD0,
        CHR 0xB0, CHR 0xD1, CHR 0x84, CHR 0xD1, CHR 0x80, CHR 0xD0, CHR 0xB0, CHR 0xD0, CHR 0xB3,
        CHR 0xD0, CHR 0xBC, CHR 0xD1, CHR 0x8B] @ '' (C1)'', ''C1'')]"

definition STRUCT_TYPES_fa :: "(string \<times> string) list" where
  "STRUCT_TYPES_fa =
    [([CHR 0xD9, CHR 0x85, CHR 0xD8, CHR 0xB5, CHR 0xD8, CHR 0xA7, CHR 0xD9, CHR 0x84, CHR 0xD8,
       CHR 0xAD] @ '' '' @ [CHR 0xD8, CHR 0xA8, CHR 0xD9, CHR 0x86, CHR 0xD8, CHR 0xA7, CHR 0xDB,
       CHR 0x8C, CHR 0xDB, CHR 0x8C] @ '' '' @ [CHR 0xD8, CHR 0xA8, CHR 0xD8, CHR 0xAF, CHR 0xD9,
       CHR 0x88, CHR 0xD9, CHR 0x86] @ '' '' @ [CHR 0xD9, CHR 0x85, CHR 0xD8, CHR 0xB3, CHR 0xD9,
       CHR 0x84, CHR 0xD8, CHR 0xAD] @ '' (URM)'', ''URM''),
     ([CHR 0xD9, CHR 0x82, CHR 0xD8, CHR 0xA7, CHR 0xD8, CHR 0xA8] @ '' '' @ [CHR 0xD8, CHR 0xAE,
        CHR 0xD9, CHR 0x85, CHR 0xD8, CHR 0xB4, CHR 0xDB, CHR 0x8C] @ '' '' @ [CHR 0xD9, CHR 0x81,
        CHR 0xD9, CHR 0x88, CHR 0xD9, CHR 0x84, CHR 0xD8, CHR 0xA7, CHR 0xD8, CHR 0xAF, CHR 0xDB,
        CHR 0x8C] @ '' (S1)'', ''S1''),
     ([CHR 0xD9, CHR 0x82, CHR 0xD8, CHR 0xA7, CHR 0xD8, CHR 0xA8] @ '' '' @ [CHR 0xD8, CHR 0xAE,
        CHR 0xD9, CHR 0x85, CHR 0xD8, CHR 0xB4, CHR 0xDB, CHR 0x8C] @ '' '' @ [CHR 0xD8, CHR 0xA8,
        CHR 0xD8, CHR 0xAA, CHR 0xD9, CHR 0x86, CHR 0xE2, CHR 0x80, CHR 0x8C, CHR 0xD8, CHR 0xA2,
        CHR 0xD8, CHR 0xB1, CHR 0xD9, CHR 0x85, CHR 0xD9, CHR 0x87] @ '' (C4)'', ''C4''),
     ([CHR 0xD9, CHR 0x82, CHR 0xD8, CHR 0xA7, CHR 0xD8, CHR 0xA8] @ '' '' @ [CHR 0xDA, CHR 0x86,
        CHR 0xD9, CHR 0x88, CHR 0xD8, CHR 0xA8, CHR 0xDB, CHR 0x8C] @ '' (W1)'', ''W1''),
     ([CHR 0xD8, CHR 0xA8, CHR 0xD8, CHR 0xAA, CHR 0xD9, CHR 0x86] @ '' '' @ [CHR 0xD9, CHR 0xBE,
        CHR 0xDB, CHR 0x8C, CHR 0xD8, CHR 0xB4, CHR 0xE2, CHR 0x80, CHR 0x8C, CHR 0xD8, CHR 0xB3,
        CHR 0xD8, CHR 0xA7, CHR 0xD8, CHR 0xAE, CHR 0xD8, CHR 0xAA, CHR 0xD9,
        CHR 0x87] @ '' (PC1)'', ''PC1''),
     ([CHR 0xD8, CHR 0xAF, CHR 0xDB, CHR 0x8C, CHR 0xD9, CHR 0x88, CHR 0xD8, CHR 0xA7, CHR 0xD8,
        CHR 0xB1] @ '' '' @ [CHR 0xD8, CHR 0xA8, CHR 0xD8, CHR 0xB1, CHR 0xD8, CHR 0xB4, CHR 0xDB,
        CHR 0x8C] @ '' '' @ [CHR 0xD8, CHR 0xA8, CHR 0xD8, CHR 0xAA, CHR 0xD9, CHR 0x86, CHR 0xE2,
        CHR 0x80, CHR 0x8C, CHR 0xD8, CHR 0xA2, CHR 0xD8, CHR 0xB1, CHR 0xD9, CHR 0x85, CHR 0xD9,
        CHR 0x87] @ '' (C1)'', ''C1'')]"

definition STRUCT_TYPES_ar :: "(string \<times> string) list" where
  "STRUCT_TYPES_ar =
    [([CHR 0xD9, CHR 0x85, CHR 0xD8, CHR 0xA8, CHR 0xD8, CHR 0xA7, CHR 0xD9, CHR 0x86, CHR 0xD9,
       CHR 0x8A] @ '' '' @ [CHR 0xD8, CHR 0xB7, CHR 0xD9, CHR 0x88, CHR 0xD8,
       CHR 0xA8] @ '' '' @ [CHR 0xD8, CHR 0xBA, CHR 0xD9, CHR 0x8A, CHR 0xD8,
       CHR 0xB1] @ '' '' @ [CHR 0xD9, CHR 0x85, CHR 0xD8, CHR 0xB3, CHR 0xD9, CHR 0x84, CHR 0xD8,
       CHR 0xAD, CHR 0xD8, CHR 0xA9] @ '' (URM)'', ''URM''),
     ([CHR 0xD8, CHR 0xA5, CHR 0xD8, CHR 0xB7, CHR 0xD8, CHR 0xA7, CHR 0xD8,
        CHR 0xB1] @ '' '' @ [CHR 0xD9, CHR 0x84, CHR 0xD8, CHR 0xAD, CHR 0xD8, CHR 0xB8, CHR 0xD9,
        CHR 0x8A] @ '' '' @ [CHR 0xD9, CHR 0x81, CHR 0xD9, CHR 0x88, CHR 0xD9, CHR 0x84, CHR 0xD8,
        CHR 0xA7, CHR 0xD8, CHR 0xB0, CHR 0xD9, CHR 0x8A] @ '' (S1)'', ''S1''),
     ([CHR 0xD8, CHR 0xA5, CHR 0xD8, CHR 0xB7, CHR 0xD8, CHR 0xA7, CHR 0xD8,
        CHR 0xB1] @ '' '' @ [CHR 0xD9, CHR 0x84, CHR 0xD8, CHR 0xAD, CHR 0xD8, CHR 0xB8, CHR 0xD9,
        CHR 0x8A] @ '' '' @ [CHR 0xD8, CHR 0xAE, CHR 0xD8, CHR 0xB1, CHR 0xD8, CHR 0xB3, CHR 0xD8,
        CHR 0xA7, CHR 0xD9, CHR 0x86, CHR 0xD8, CHR 0xA9] @ '' '' @ [CHR 0xD9, CHR 0x85, CHR 0xD8,
        CHR 0xB3, CHR 0xD9, CHR 0x84, CHR 0xD8, CHR 0xAD, CHR 0xD8,
        CHR 0xA9] @ '' (C4)'', ''C4''),
     ([CHR 0xD8, CHR 0xA5, CHR 0xD8, CHR 0xB7, CHR 0xD8, CHR 0xA7, CHR 0xD8,
        CHR 0xB1] @ '' '' @ [CHR 0xD8, CHR 0xAE, CHR 0xD8, CHR 0xB4, CHR 0xD8, CHR 0xA8, CHR 0xD9,
        CHR 0x8A] @ '' (W1)'', ''W1''),
     ([CHR 0xD8, CHR 0xAE, CHR 0xD8, CHR 0xB1, CHR 0xD8, CHR 0xB3, CHR 0xD8, CHR 0xA7, CHR 0xD9,
        CHR 0x86, CHR 0xD8, CHR 0xA9] @ '' '' @ [CHR 0xD9, CHR 0x85, CHR 0xD8, CHR 0xB3, CHR 0xD8,
        CHR 0xA8, CHR 0xD9, CHR 0x82, CHR 0xD8, CHR 0xA9] @ '' '' @ [CHR 0xD8, CHR 0xA7, CHR 0xD9,
        CHR 0x84, CHR 0xD8, CHR 0xB5, CHR 0xD8, CHR 0xA8] @ '' (PC1)'', ''PC1''),
     ([CHR 0xD8, CHR 0xAC, CHR 0xD8, CHR 0xAF, CHR 0xD8, CHR 0xA7, CHR 0xD8,
        CHR 0xB1] @ '' '' @ [CHR 0xD9, CHR 0x82, CHR 0xD8, CHR 0xB5] @ '' '' @ [CHR 0xD8, CHR 0xAE,
        CHR 0xD8, CHR 0xB1, CHR 0xD8, CHR 0xB3, CHR 0xD8, CHR 0xA7, CHR 0xD9, CHR 0x86, CHR 0xD8,
        CHR 0xA9] @ '' '' @ [CHR 0xD9, CHR 0x85, CHR 0xD8, CHR 0xB3, CHR 0xD9, CHR 0x84, CHR 0xD8,
        CHR 0xAD, CHR 0xD8, CHR 0xA9] @ '' (C1)'', ''C1'')]"

definition STRUCT_TYPES_BY_LANG :: "(string \<times> (string \<times> string) list) list" where
  "STRUCT_TYPES_BY_LANG =
    [(''en'', STRUCT_TYPES_en),
     (''tr'', STRUCT_TYPES_tr),
     (''fr'', STRUCT_TYPES_fr),
     (''de'', STRUCT_TYPES_de),
     (''zh'', STRUCT_TYPES_zh),
     (''ru'', STRUCT_TYPES_ru),
     (''fa'', STRUCT_TYPES_fa),
     (''ar'', STRUCT_TYPES_ar)]"


text \<open>
  \<^verbatim>\<open>
  occ_type_display = OCC_TYPES_BY_LANG.get(lang, OCC_TYPES_BY_LANG["en"])
  struct_type_display = STRUCT_TYPES_BY_LANG.get(lang, STRUCT_TYPES_BY_LANG["en"])
  struct_display_choice = st.selectbox(t["struct_type"], list(struct_type_display.keys()))
  struct_typ = struct_type_display[struct_display_choice]
  occ_choice = st.selectbox(t["occ_type"], list(occ_type_display.keys()))
  occ_type_code = occ_type_display[occ_choice][0]
  \<close>
  A select box returns one of the options it was given, so the labels a user can choose
  in a language are the keys of that language's dictionary.
\<close>

definition occ_type_display :: "string \<Rightarrow> (string \<times> string list) list" where
  "occ_type_display lang =
     (case map_of OCC_TYPES_BY_LANG lang of None \<Rightarrow> OCC_TYPES_en | Some d \<Rightarrow> d)"

definition struct_type_display :: "string \<Rightarrow> (string \<times> string) list" where
  "struct_type_display lang =
     (case map_of STRUCT_TYPES_BY_LANG lang of None \<Rightarrow> STRUCT_TYPES_en | Some d \<Rightarrow> d)"

definition struct_options :: "string \<Rightarrow> string list" where
  "struct_options lang = map fst (struct_type_display lang)"

definition occ_options :: "string \<Rightarrow> string list" where
  "occ_options lang = map fst (occ_type_display lang)"

definition struct_typ :: "string \<Rightarrow> string \<Rightarrow> py_error + string" where
  "struct_typ lang struct_display_choice =
     (case map_of (struct_type_display lang) struct_display_choice of
        None \<Rightarrow> Inl KeyError
      | Some code \<Rightarrow> Inr code)"

definition occ_type_code :: "string \<Rightarrow> string \<Rightarrow> py_error + string" where
  "occ_type_code lang occ_choice =
     (case map_of (occ_type_display lang) occ_choice of
        None \<Rightarrow> Inl KeyError
      | Some [] \<Rightarrow> Inl IndexError
      | Some (code # rest) \<Rightarrow> Inr code)"

subsection \<open>The feature array\<close>

text \<open>
  \<^verbatim>\<open>
  X = np.array([[
      encoders["struct_typ"].transform([struct_typ])[0],
      encoders["occ_type"].transform([occ_type_code])[0],
      year_built, no_stories, magnitude, distance ]])
  \<close>
  The registry is passed in and handed back, so that a theorem can say what a call does
  to it. The array is a list of rows; NumPy stores the two codes and the two integer
  inputs as floating-point numbers of the same value, written here as reals.
\<close>

definition encode :: "encoders \<Rightarrow> string \<Rightarrow> string \<Rightarrow> (py_error + nat) \<times> encoders" where
  "encode encoders field raw =
     (case encoders field of
        None \<Rightarrow> (Inl KeyError, encoders)
      | Some le \<Rightarrow>
          (case transform le [raw] of
             Inl e \<Rightarrow> (Inl e, encoders)
           | Inr [] \<Rightarrow> (Inl IndexError, encoders)
           | Inr (c # cs) \<Rightarrow> (Inr c, encoders)))"

definition X_array ::
  "encoders \<Rightarrow> string \<Rightarrow> string \<Rightarrow> int \<Rightarrow> int \<Rightarrow> real \<Rightarrow> real \<Rightarrow>
   (py_error + real list list) \<times> encoders" where
  "X_array encoders s_typ o_code year_built no_stories magnitude distance =
     (case encode encoders ''struct_typ'' s_typ of
        (Inl e, encoders1) \<Rightarrow> (Inl e, encoders1)
      | (Inr s, encoders1) \<Rightarrow>
          (case encode encoders1 ''occ_type'' o_code of
             (Inl e, encoders2) \<Rightarrow> (Inl e, encoders2)
           | (Inr c, encoders2) \<Rightarrow>
               (Inr [[real s, real c, real_of_int year_built, real_of_int no_stories,
                      magnitude, distance]], encoders2)))"

definition form_array ::
  "encoders \<Rightarrow> string \<Rightarrow> string \<Rightarrow> string \<Rightarrow> int \<Rightarrow> int \<Rightarrow> real \<Rightarrow> real \<Rightarrow>
   (py_error + real list list) \<times> encoders" where
  "form_array encoders lang struct_display_choice occ_choice
     year_built no_stories magnitude distance =
     (case struct_typ lang struct_display_choice of
        Inl e \<Rightarrow> (Inl e, encoders)
      | Inr s_typ \<Rightarrow>
          (case occ_type_code lang occ_choice of
             Inl e \<Rightarrow> (Inl e, encoders)
           | Inr o_code \<Rightarrow>
               X_array encoders s_typ o_code year_built no_stories magnitude distance))"

subsection \<open>Decoding\<close>

text \<open>
  Modelled from the spec: the inverse direction of an encoding table (\<open>decode\<close>), which the
  application never calls. It is read as the counterpart of \<open>encode\<close> on the same registry,
  \<^verbatim>\<open>encoders[field].inverse_transform([code])[0]\<close>.
\<close>

definition decode :: "encoders \<Rightarrow> string \<Rightarrow> nat \<Rightarrow> py_error + string" where
  "decode encoders field code =
     (case encoders field of
        None \<Rightarrow> Inl KeyError
      | Some le \<Rightarrow>
          (case inverse_transform le [int code] of
             Inl e \<Rightarrow> Inl e
           | Inr [] \<Rightarrow> Inl IndexError
           | Inr (v # vs) \<Rightarrow> Inr v))"

subsection \<open>The damage class\<close>

text \<open>
  \<^verbatim>\<open>
  damage_class_pred = clf_model.predict(X)[0]
  damage_map = { 0: f"<green circle> {t['safe']}", 1: f"<orange circle> {t['high_risk']}",
                 2: f"<red circle> {t['collapsed']}" }
  st.metric(t["damage_class"], damage_map[int(damage_class_pred)])
  \<close>
  The three circles are single characters outside ASCII, given by their UTF-8 bytes. Of
  the translation dictionary \<^verbatim>\<open>t\<close> only the three entries read here are kept.
\<close>

record translation =
  safe :: string
  high_risk :: string
  collapsed :: string

definition damage_map :: "translation \<Rightarrow> (int \<times> string) list" where
  "damage_map t =
     [(0, [CHR 0xF0, CHR 0x9F, CHR 0x9F, CHR 0xA2] @ '' '' @ safe t),
      (1, [CHR 0xF0, CHR 0x9F, CHR 0x9F, CHR 0xA0] @ '' '' @ high_risk t),
      (2, [CHR 0xF0, CHR 0x9F, CHR 0x94, CHR 0xB4] @ '' '' @ collapsed t)]"

definition damage_class :: "translation \<Rightarrow> int \<Rightarrow> py_error + string" where
  "damage_class t damage_class_pred =
     (case map_of (damage_map t) damage_class_pred of
        None \<Rightarrow> Inl KeyError
      | Some shown \<Rightarrow> Inr shown)"

text \<open>The three entries of the English translation dictionary.\<close>

definition translation_en :: translation where
  "translation_en = \<lparr>safe = ''Safe'', high_risk = ''High Risk'', collapsed = ''Collapsed''\<rparr>"

subsection \<open>A sample reference table\<close>

text \<open>
  A small table of the shape the application reads, after the index column has been
  dropped: two text columns and two numeric ones. The second definition is the registry
  the loop builds from it.
\<close>

definition reference_sample :: dataframe where
  "reference_sample =
     [(''struct_typ'', ObjectCol [''URM'', ''C1'', ''W1'', ''URM'', ''S1'', ''C4'', ''PC1'']),
      (''occ_type'', ObjectCol [''RES1'', ''COM1'', ''IND1'', ''AGR1'', ''EDU1'', ''REL1'', ''GOV1'']),
      (''year_built'', IntCol [1990, 2001, 1985, 2010, 1999, 2005, 2017]),
      (''magnitude'', FloatCol [5, 6, 7, 5, 6, 7, 5])]"

definition sample_encoders :: encoders where
  "sample_encoders =
     [''struct_typ'' \<mapsto> \<lparr>classes = [''C1'', ''C4'', ''PC1'', ''S1'', ''URM'', ''W1'']\<rparr>,
      ''occ_type'' \<mapsto>
        \<lparr>classes = [''AGR1'', ''COM1'', ''EDU1'', ''GOV1'', ''IND1'', ''REL1'', ''RES1'']\<rparr>]"

text \<open>
  The table that a file with a header line and no records gives: every column is of dtype
  \<^verbatim>\<open>object\<close> and has no cells.
\<close>

definition empty_csv :: dataframe where
  "empty_csv =
     [(''Unnamed: 0'', ObjectCol []), (''struct_typ'', ObjectCol []), (''occ_type'', ObjectCol [])]"

section \<open>Properties of the label encoder\<close>

text \<open>
  The dictionary built from an enumeration of distinct values sends the value at position
  \<open>i\<close> to \<open>i\<close> and holds nothing else.
\<close>

lemma fold_table_notin:
  assumes f: "\<And>i val table. f (i, val) table = table(val \<mapsto> i)"
  shows "v \<notin> set xs \<Longrightarrow> fold f (enumerate n xs) m v = m v"
  by (induction xs arbitrary: n m) (auto simp: f)

lemma fold_table_nth:
  assumes f: "\<And>i val table. f (i, val) table = table(val \<mapsto> i)"
  shows "distinct xs \<Longrightarrow> i < length xs \<Longrightarrow> fold f (enumerate n xs) m (xs ! i) = Some (n + i)"
proof (induction xs arbitrary: n m i)
  case Nil
  then show ?case by simp
next
  case (Cons x xs)
  show ?case
  proof (cases i)
    case 0
    from Cons.prems have "x \<notin> set xs" by simp
    from fold_table_notin [OF f this, of "Suc n" "m(x \<mapsto> n)"] 0 show ?thesis
      by (simp add: f)
  next
    case (Suc j)
    with Cons.prems have "distinct xs" "j < length xs" by simp_all
    from Cons.IH [OF this] Suc show ?thesis by (simp add: f)
  qed
qed

lemma label_table_nth:
  "distinct xs \<Longrightarrow> i < length xs \<Longrightarrow> label_table xs (xs ! i) = Some i"
  unfolding label_table_def
  using fold_table_nth [of "\<lambda>(i, val) table. table(val \<mapsto> i)" xs i 0 Map.empty] by simp

lemma label_table_notin: "v \<notin> set xs \<Longrightarrow> label_table xs v = None"
  unfolding label_table_def
  using fold_table_notin [of "\<lambda>(i, val) table. table(val \<mapsto> i)" v xs 0 Map.empty] by simp

lemma unique_python_props:
  "sorted (unique_python y)" "distinct (unique_python y)" "set (unique_python y) = set y"
  by (simp_all add: unique_python_def)

lemma unique_python_sorted_list_of_set: "unique_python y = sorted_list_of_set (set y)"
  by (simp add: unique_python_def sorted_list_of_set_sort_remdups)

lemma lookup_all_total:
  "\<forall>v\<in>set vs. table v \<noteq> None \<Longrightarrow> \<exists>cs. lookup_all table vs = Inr cs"
  by (induction vs) auto

lemma fit_transform_ok:
  "\<exists>cs. fit_transform y = Inr (\<lparr>classes = unique_python y\<rparr>, cs)"
proof -
  have "\<forall>v\<in>set y. label_table (unique_python y) v \<noteq> None"
  proof
    fix v assume "v \<in> set y"
    then have "v \<in> set (unique_python y)" by (simp add: unique_python_props)
    then obtain i where "i < length (unique_python y)" "unique_python y ! i = v"
      by (auto simp: in_set_conv_nth)
    then show "label_table (unique_python y) v \<noteq> None"
      using label_table_nth [of "unique_python y" i] by (auto simp: unique_python_props)
  qed
  from lookup_all_total [OF this] show ?thesis
    by (auto simp: fit_transform_def map_to_integer_def)
qed

lemma transform_known:
  "distinct (classes le) \<Longrightarrow> i < length (classes le) \<Longrightarrow>
   transform le [classes le ! i] = Inr [i]"
  by (simp add: transform_def encode_values_def map_to_integer_def label_table_nth)

lemma transform_unseen:
  "v \<notin> set (classes le) \<Longrightarrow> transform le [v] = Inl ValueError"
  by (simp add: transform_def encode_values_def map_to_integer_def label_table_notin)

lemma build_loop_encoders:
  "build_loop cols data enc = Inr (data', enc') \<Longrightarrow>
   enc' F = (if F \<in> set cols
             then (case map_of data F of
                     Some (ObjectCol y) \<Rightarrow> Some \<lparr>classes = unique_python y\<rparr>
                   | _ \<Rightarrow> enc F)
             else enc F)"
proof (induction cols arbitrary: data enc)
  case Nil
  then show ?case by simp
next
  case (Cons col cols)
  show ?case
  proof (cases "map_of data col")
    case None
    with Cons.prems show ?thesis by simp
  next
    case (Some c)
    show ?thesis
    proof (cases c)
      case (ObjectCol y)
      obtain cs where ft: "fit_transform y = Inr (\<lparr>classes = unique_python y\<rparr>, cs)"
        using fit_transform_ok by blast
      let ?data1 = "AList.update col (IntCol (map int cs)) data"
      let ?enc1 = "enc(col \<mapsto> \<lparr>classes = unique_python y\<rparr>)"
      from Cons.prems Some ObjectCol ft
      have "build_loop cols ?data1 ?enc1 = Inr (data', enc')" by simp
      from Cons.IH [OF this] Some ObjectCol show ?thesis
        by (auto simp: update_conv' split: option.splits column.splits)
    next
      case (IntCol x)
      with Cons.prems Some have "build_loop cols data enc = Inr (data', enc')" by simp
      from Cons.IH [OF this] Some IntCol show ?thesis by auto
    next
      case (FloatCol x)
      with Cons.prems Some have "build_loop cols data enc = Inr (data', enc')" by simp
      from Cons.IH [OF this] Some FloatCol show ?thesis by auto
    qed
  qed
qed

lemma build_loop_total:
  "set cols \<subseteq> fst ` set data \<Longrightarrow> \<exists>r. build_loop cols data enc = Inr r"
proof (induction cols arbitrary: data enc)
  case Nil
  then show ?case by simp
next
  case (Cons col cols)
  from Cons.prems obtain c where c: "map_of data col = Some c"
    by (cases "map_of data col") (auto simp: map_of_eq_None_iff)
  show ?case
  proof (cases c)
    case (ObjectCol y)
    obtain cs where ft: "fit_transform y = Inr (\<lparr>classes = unique_python y\<rparr>, cs)"
      using fit_transform_ok by blast
    have "fst ` set (AList.update col (IntCol (map int cs)) data) = fst ` set data"
    proof -
      from c have "col \<in> fst ` set data" by (metis map_of_eq_None_iff option.distinct(1))
      then show ?thesis by (auto simp: dom_update)
    qed
    with Cons.prems have "set cols \<subseteq> fst ` set (AList.update col (IntCol (map int cs)) data)"
      by simp
    from Cons.IH [OF this] c ObjectCol ft show ?thesis by simp
  next
    case (IntCol x)
    from Cons.prems have "set cols \<subseteq> fst ` set data" by simp
    from Cons.IH [OF this] c IntCol show ?thesis by simp
  next
    case (FloatCol x)
    from Cons.prems have "set cols \<subseteq> fst ` set data" by simp
    from Cons.IH [OF this] c FloatCol show ?thesis by simp
  qed
qed

text \<open>
  In a sorted list without repetitions the position of an element is the number of
  elements below it.
\<close>

lemma card_less_nth:
  fixes xs :: "'a::linorder list"
  assumes "sorted xs" "distinct xs" "i < length xs"
  shows "card {u \<in> set xs. u < xs ! i} = i"
proof -
  have "{u \<in> set xs. u < xs ! i} = set (take i xs)"
  proof (rule set_eqI)
    fix u
    show "u \<in> {u \<in> set xs. u < xs ! i} \<longleftrightarrow> u \<in> set (take i xs)"
    proof
      assume "u \<in> {u \<in> set xs. u < xs ! i}"
      then obtain j where j: "j < length xs" "xs ! j = u" "xs ! j < xs ! i"
        by (auto simp: in_set_conv_nth)
      have "j < i"
      proof (rule ccontr)
        assume "\<not> j < i"
        then have "i \<le> j" by simp
        with assms(1) j(1) have "xs ! i \<le> xs ! j" by (simp add: sorted_nth_mono)
        with j(3) show False by simp
      qed
      with j assms(3) show "u \<in> set (take i xs)"
        by (auto simp: in_set_conv_nth)
    next
      assume "u \<in> set (take i xs)"
      then obtain j where j: "j < i" "xs ! j = u"
        using assms(3) by (auto simp: in_set_conv_nth)
      from j(1) have "j \<le> i" by simp
      with assms have "xs ! j \<le> xs ! i" by (simp add: sorted_nth_mono)
      moreover from j(1) assms(3) have "j < length xs" "j \<noteq> i" by simp_all
      with assms have "xs ! j \<noteq> xs ! i" by (simp add: nth_eq_iff_index_eq)
      ultimately show "u \<in> {u \<in> set xs. u < xs ! i}"
        using j assms(3) by auto
    qed
  qed
  moreover from assms have "card (set (take i xs)) = i"
    by (simp add: distinct_card)
  ultimately show ?thesis by simp
qed

section \<open>Properties of the registry\<close>

lemma encode_registry: "snd (encode encoders field raw) = encoders"
  by (simp add: encode_def split: option.splits sum.splits list.splits)

lemma encode_fitted_known:
  assumes "encoders F = Some \<lparr>classes = unique_python y\<rparr>" "v \<in> set y"
  shows "fst (encode encoders F v) = Inr (card {u \<in> set y. u < v})"
proof -
  let ?xs = "unique_python y"
  from assms(2) have "v \<in> set ?xs" by (simp add: unique_python_props)
  then obtain i where i: "i < length ?xs" "?xs ! i = v"
    by (auto simp: in_set_conv_nth)
  have "transform \<lparr>classes = ?xs\<rparr> [?xs ! i] = Inr [i]"
    using transform_known [of "\<lparr>classes = ?xs\<rparr>" i] i by (simp add: unique_python_props)
  with assms(1) i have "fst (encode encoders F v) = Inr i"
    by (simp add: encode_def)
  moreover have "card {u \<in> set ?xs. u < ?xs ! i} = i"
    using i by (intro card_less_nth) (simp_all add: unique_python_props)
  ultimately show ?thesis using i by (simp add: unique_python_props)
qed

lemma encode_fitted_unseen:
  assumes "encoders F = Some \<lparr>classes = unique_python y\<rparr>" "v \<notin> set y"
  shows "fst (encode encoders F v) = Inl ValueError"
  using assms transform_unseen [of v "\<lparr>classes = unique_python y\<rparr>"]
  by (simp add: encode_def unique_python_props)

lemma build_encoders_total: "\<exists>data' encoders. build_encoders data = Inr (data', encoders)"
  using build_loop_total [of "map fst data" data Map.empty]
  by (auto simp: build_encoders_def)

lemma build_encoders_object:
  assumes "distinct (map fst data)" "(F, ObjectCol y) \<in> set data"
    and "build_encoders data = Inr (data', encoders)"
  shows "encoders F = Some \<lparr>classes = unique_python y\<rparr>"
proof -
  from assms(1,2) have "map_of data F = Some (ObjectCol y)" by simp
  moreover from assms(2) have "F \<in> set (map fst data)" by force
  ultimately show ?thesis
    using build_loop_encoders [of "map fst data" data Map.empty data' encoders F] assms(3)
    by (simp add: build_encoders_def)
qed

lemma build_encoders_absent:
  assumes "F \<notin> fst ` set data" "build_encoders data = Inr (data', encoders)"
  shows "encoders F = None"
  using build_loop_encoders [of "map fst data" data Map.empty data' encoders F] assms
  by (simp add: build_encoders_def)

lemma decode_fitted:
  assumes "encoders F = Some \<lparr>classes = unique_python y\<rparr>"
  shows "decode encoders F c =
           (if c < card (set y) then Inr (sorted_list_of_set (set y) ! c) else Inl ValueError)"
proof -
  have "length (unique_python y) = card (set y)"
    using distinct_card [of "unique_python y"] by (simp add: unique_python_props)
  with assms show ?thesis
    by (simp add: decode_def inverse_transform_def unique_python_sorted_list_of_set)
qed

text \<open>
  The array expression evaluates the structural code first, then the occupancy code; the
  first exception ends it.
\<close>

lemma encode_nth:
  assumes "encoders F = Some le" "distinct (classes le)" "i < length (classes le)"
  shows "fst (encode encoders F (classes le ! i)) = Inr i"
  using assms transform_known [of le i] by (simp add: encode_def)

lemma encode_pair: "encode encoders field raw = (fst (encode encoders field raw), encoders)"
  using encode_registry [of encoders field raw] by (metis prod.collapse)

lemma X_array_struct_error:
  assumes "fst (encode encoders ''struct_typ'' s) = Inl e"
  shows "X_array encoders s oc yb ns m d = (Inl e, encoders)"
proof -
  from assms have "encode encoders ''struct_typ'' s = (Inl e, encoders)"
    using encode_pair [of encoders "''struct_typ''" s] by simp
  then show ?thesis by (simp add: X_array_def)
qed

lemma X_array_occ_error:
  assumes "fst (encode encoders ''struct_typ'' s) = Inr a"
    and "fst (encode encoders ''occ_type'' oc) = Inl e"
  shows "X_array encoders s oc yb ns m d = (Inl e, encoders)"
proof -
  from assms(1) have "encode encoders ''struct_typ'' s = (Inr a, encoders)"
    using encode_pair [of encoders "''struct_typ''" s] by simp
  moreover from assms(2) have "encode encoders ''occ_type'' oc = (Inl e, encoders)"
    using encode_pair [of encoders "''occ_type''" oc] by simp
  ultimately show ?thesis by (simp add: X_array_def)
qed

lemma X_array_ok:
  assumes "fst (encode encoders ''struct_typ'' s) = Inr a"
    and "fst (encode encoders ''occ_type'' oc) = Inr b"
  shows "X_array encoders s oc yb ns m d =
           (Inr [[real a, real b, real_of_int yb, real_of_int ns, m, d]], encoders)"
proof -
  from assms(1) have "encode encoders ''struct_typ'' s = (Inr a, encoders)"
    using encode_pair [of encoders "''struct_typ''" s] by simp
  moreover from assms(2) have "encode encoders ''occ_type'' oc = (Inr b, encoders)"
    using encode_pair [of encoders "''occ_type''" oc] by simp
  ultimately show ?thesis by (simp add: X_array_def)
qed

text \<open>The dictionary of damage classes has exactly the keys 0, 1 and 2.\<close>

lemma damage_class_cases:
  "damage_class t k =
     (if k = 0 then Inr ([CHR 0xF0, CHR 0x9F, CHR 0x9F, CHR 0xA2] @ '' '' @ safe t)
      else if k = 1 then Inr ([CHR 0xF0, CHR 0x9F, CHR 0x9F, CHR 0xA0] @ '' '' @ high_risk t)
      else if k = 2 then Inr ([CHR 0xF0, CHR 0x9F, CHR 0x94, CHR 0xB4] @ '' '' @ collapsed t)
      else Inl KeyError)"
  by (simp add: damage_class_def damage_map_def)

text \<open>
  Dropping a column keeps the other columns and their names; a field without an encoder
  cannot be encoded.
\<close>

lemma encode_no_encoder: "encoders F = None \<Longrightarrow> fst (encode encoders F v) = Inl KeyError"
  by (simp add: encode_def)

lemma unique_python_Nil: "unique_python [] = []"
  by (simp add: unique_python_def)

lemma drop_column_present:
  "label \<in> fst ` set data \<Longrightarrow>
   drop_column label data = Inr (filter (\<lambda>(name, c). name \<noteq> label) data)"
  by (simp add: drop_column_def)

lemma drop_column_absent: "label \<notin> fst ` set data \<Longrightarrow> drop_column label data = Inl KeyError"
  by (simp add: drop_column_def)

lemma filter_names_distinct:
  "distinct (map fst data) \<Longrightarrow> distinct (map fst (filter (\<lambda>(name, c). name \<noteq> label) data))"
  by (rule distinct_map_filter)

lemma filter_names_keeps:
  "(F, col) \<in> set data \<Longrightarrow> F \<noteq> label \<Longrightarrow>
   (F, col) \<in> set (filter (\<lambda>(name, c). name \<noteq> label) data)"
  by simp

lemma filter_names_absent:
  "F \<notin> fst ` set data \<Longrightarrow> F \<notin> fst ` set (filter (\<lambda>(name, c). name \<noteq> label) data)"
  by force

section \<open>Properties of the option dictionaries\<close>

text \<open>
  Whatever the language code, the dictionary in use is one of the eight that are written
  out (an unknown code falls back to English), and all eight list the same codes in the
  same order under their labels.
\<close>

lemma struct_type_display_member:
  "struct_type_display lang \<in> snd ` set STRUCT_TYPES_BY_LANG"
proof (cases "map_of STRUCT_TYPES_BY_LANG lang")
  case None
  then have "struct_type_display lang = STRUCT_TYPES_en"
    by (simp add: struct_type_display_def)
  moreover have "(''en'', STRUCT_TYPES_en) \<in> set STRUCT_TYPES_BY_LANG"
    by (simp add: STRUCT_TYPES_BY_LANG_def)
  ultimately show ?thesis by force
next
  case (Some d)
  then have "struct_type_display lang = d" by (simp add: struct_type_display_def)
  moreover from Some have "(lang, d) \<in> set STRUCT_TYPES_BY_LANG" by (rule map_of_SomeD)
  ultimately show ?thesis by force
qed

lemma occ_type_display_member:
  "occ_type_display lang \<in> snd ` set OCC_TYPES_BY_LANG"
proof (cases "map_of OCC_TYPES_BY_LANG lang")
  case None
  then have "occ_type_display lang = OCC_TYPES_en"
    by (simp add: occ_type_display_def)
  moreover have "(''en'', OCC_TYPES_en) \<in> set OCC_TYPES_BY_LANG"
    by (simp add: OCC_TYPES_BY_LANG_def)
  ultimately show ?thesis by force
next
  case (Some d)
  then have "occ_type_display lang = d" by (simp add: occ_type_display_def)
  moreover from Some have "(lang, d) \<in> set OCC_TYPES_BY_LANG" by (rule map_of_SomeD)
  ultimately show ?thesis by force
qed

lemma STRUCT_TYPES_codes:
  "\<forall>d \<in> snd ` set STRUCT_TYPES_BY_LANG.
     map snd d = [''URM'', ''S1'', ''C4'', ''W1'', ''PC1'', ''C1'']"
  by (simp add: STRUCT_TYPES_BY_LANG_def STRUCT_TYPES_en_def STRUCT_TYPES_tr_def
      STRUCT_TYPES_fr_def STRUCT_TYPES_de_def STRUCT_TYPES_zh_def STRUCT_TYPES_ru_def
      STRUCT_TYPES_fa_def STRUCT_TYPES_ar_def)

lemma OCC_TYPES_codes:
  "\<forall>d \<in> snd ` set OCC_TYPES_BY_LANG.
     map snd d =
       [[''RES1'', ''RES3'', ''RES4''],
        [''COM1'', ''COM2'', ''COM3'', ''COM4'', ''COM7'', ''COM8''],
        [''IND1'', ''IND2'', ''IND3''],
        [''AGR1''], [''EDU1''], [''REL1''], [''GOV1'']]"
  by (simp add: OCC_TYPES_BY_LANG_def OCC_TYPES_en_def OCC_TYPES_tr_def
      OCC_TYPES_fr_def OCC_TYPES_de_def OCC_TYPES_zh_def OCC_TYPES_ru_def
      OCC_TYPES_fa_def OCC_TYPES_ar_def)

lemma struct_type_display_codes:
  "map snd (struct_type_display lang) = [''URM'', ''S1'', ''C4'', ''W1'', ''PC1'', ''C1'']"
  using STRUCT_TYPES_codes struct_type_display_member [of lang] by (rule bspec)

lemma occ_type_display_codes:
  "map snd (occ_type_display lang) =
       [[''RES1'', ''RES3'', ''RES4''],
        [''COM1'', ''COM2'', ''COM3'', ''COM4'', ''COM7'', ''COM8''],
        [''IND1'', ''IND2'', ''IND3''],
        [''AGR1''], [''EDU1''], [''REL1''], [''GOV1'']]"
  using OCC_TYPES_codes occ_type_display_member [of lang] by (rule bspec)

lemma map_of_key:
  assumes "k \<in> set (map fst d)"
  shows "\<exists>v. map_of d k = Some v \<and> v \<in> set (map snd d)"
proof -
  from assms have "map_of d k \<noteq> None" by (simp add: map_of_eq_None_iff)
  then obtain v where v: "map_of d k = Some v" by blast
  then have "(k, v) \<in> set d" by (rule map_of_SomeD)
  then have "v \<in> set (map snd d)" by force
  with v show ?thesis by blast
qed

lemma struct_typ_resolves:
  assumes "choice \<in> set (struct_options lang)"
  shows "\<exists>code. struct_typ lang choice = Inr code \<and>
           code \<in> set [''URM'', ''S1'', ''C4'', ''W1'', ''PC1'', ''C1'']"
proof -
  from assms have "choice \<in> set (map fst (struct_type_display lang))"
    by (simp only: struct_options_def)
  from map_of_key [OF this]
  obtain code where c: "map_of (struct_type_display lang) choice = Some code"
    and m: "code \<in> set (map snd (struct_type_display lang))"
    by (elim exE conjE) (rule that, assumption+)
  from c have "struct_typ lang choice = Inr code" by (simp add: struct_typ_def)
  moreover from m have "code \<in> set [''URM'', ''S1'', ''C4'', ''W1'', ''PC1'', ''C1'']"
    by (simp only: struct_type_display_codes)
  ultimately show ?thesis by (intro exI conjI)
qed

lemma occ_family_resolves:
  assumes "choice \<in> set (occ_options lang)"
  shows "\<exists>family. map_of (occ_type_display lang) choice = Some family \<and>
           family \<in> set [[''RES1'', ''RES3'', ''RES4''],
                         [''COM1'', ''COM2'', ''COM3'', ''COM4'', ''COM7'', ''COM8''],
                         [''IND1'', ''IND2'', ''IND3''],
                         [''AGR1''], [''EDU1''], [''REL1''], [''GOV1'']]"
proof -
  from assms have "choice \<in> set (map fst (occ_type_display lang))"
    by (simp only: occ_options_def)
  from map_of_key [OF this]
  obtain family where c: "map_of (occ_type_display lang) choice = Some family"
    and m: "family \<in> set (map snd (occ_type_display lang))"
    by (elim exE conjE) (rule that, assumption+)
  from m have "family \<in> set [[''RES1'', ''RES3'', ''RES4''],
                         [''COM1'', ''COM2'', ''COM3'', ''COM4'', ''COM7'', ''COM8''],
                         [''IND1'', ''IND2'', ''IND3''],
                         [''AGR1''], [''EDU1''], [''REL1''], [''GOV1'']]"
    by (simp only: occ_type_display_codes)
  with c show ?thesis by (intro exI conjI)
qed

lemma family_first:
  assumes "family \<in> set [[''RES1'', ''RES3'', ''RES4''],
                         [''COM1'', ''COM2'', ''COM3'', ''COM4'', ''COM7'', ''COM8''],
                         [''IND1'', ''IND2'', ''IND3''],
                         [''AGR1''], [''EDU1''], [''REL1''], [''GOV1'']]"
  shows "\<exists>code rest. family = code # rest \<and>
           code \<in> set [''RES1'', ''COM1'', ''IND1'', ''AGR1'', ''EDU1'', ''REL1'', ''GOV1'']"
  using assms unfolding list.set insert_iff empty_iff
  by (elim disjE) simp_all

lemma occ_type_code_resolves:
  assumes "choice \<in> set (occ_options lang)"
  shows "\<exists>code. occ_type_code lang choice = Inr code \<and>
           code \<in> set [''RES1'', ''COM1'', ''IND1'', ''AGR1'', ''EDU1'', ''REL1'', ''GOV1'']"
proof -
  from occ_family_resolves [OF assms] obtain family where
    c: "map_of (occ_type_display lang) choice = Some family" and
    m: "family \<in> set [[''RES1'', ''RES3'', ''RES4''],
                      [''COM1'', ''COM2'', ''COM3'', ''COM4'', ''COM7'', ''COM8''],
                      [''IND1'', ''IND2'', ''IND3''],
                      [''AGR1''], [''EDU1''], [''REL1''], [''GOV1'']]"
    by (elim exE conjE) (rule that, assumption+)
  from family_first [OF m] obtain code rest where f: "family = code # rest"
    and k: "code \<in> set [''RES1'', ''COM1'', ''IND1'', ''AGR1'', ''EDU1'', ''REL1'', ''GOV1'']"
    by (elim exE conjE) (rule that, assumption+)
  from c f have "occ_type_code lang choice = Inr code"
    by (simp add: occ_type_code_def)
  with k show ?thesis by (intro exI conjI)
qed

lemma six_codes_member:
  assumes "code \<in> set [''URM'', ''S1'', ''C4'', ''W1'', ''PC1'', ''C1'']"
  shows "code \<in> {''C1'', ''C4'', ''PC1'', ''S1'', ''URM'', ''W1''}"
  using assms unfolding list.set insert_iff empty_iff
  by (elim disjE) simp_all

lemma form_array_resolved:
  assumes "struct_typ lang sc = Inr s" and "occ_type_code lang oc = Inr c"
  shows "form_array encoders lang sc oc yb ns m d = X_array encoders s c yb ns m d"
  using assms by (simp add: form_array_def)

section \<open>Evaluation on concrete tables\<close>

lemma six_sorted:
  "sorted_list_of_set {''C1'', ''C4'', ''PC1'', ''S1'', ''URM'', ''W1''} =
     [''C1'', ''C4'', ''PC1'', ''S1'', ''URM'', ''W1'']"
proof -
  have "sorted_list_of_set (set [''C1'', ''C4'', ''PC1'', ''S1'', ''URM'', ''W1'']) =
        sort (remdups [''C1'', ''C4'', ''PC1'', ''S1'', ''URM'', ''W1''])"
    by (rule sorted_list_of_set_sort_remdups)
  also have "\<dots> = [''C1'', ''C4'', ''PC1'', ''S1'', ''URM'', ''W1'']"
    by simp
  finally show ?thesis by (simp only: list.set)
qed

lemma six_codes:
  assumes "encoders F = Some \<lparr>classes = [''C1'', ''C4'', ''PC1'', ''S1'', ''URM'', ''W1'']\<rparr>"
  shows "fst (encode encoders F ''C1'') = Inr 0 \<and>
         fst (encode encoders F ''C4'') = Inr 1 \<and>
         fst (encode encoders F ''PC1'') = Inr 2 \<and>
         fst (encode encoders F ''S1'') = Inr 3 \<and>
         fst (encode encoders F ''URM'') = Inr 4 \<and>
         fst (encode encoders F ''W1'') = Inr 5"
  using assms
  by (simp add: encode_def transform_def encode_values_def map_to_integer_def label_table_def)

lemma reference_sample_build:
  "build_encoders reference_sample =
     Inr ([(''struct_typ'', IntCol [4, 0, 5, 4, 3, 1, 2]),
           (''occ_type'', IntCol [6, 1, 4, 0, 2, 5, 3]),
           (''year_built'', IntCol [1990, 2001, 1985, 2010, 1999, 2005, 2017]),
           (''magnitude'', FloatCol [5, 6, 7, 5, 6, 7, 5])],
          sample_encoders)"
  by (simp add: reference_sample_def sample_encoders_def build_encoders_def fit_transform_def
      unique_python_def map_to_integer_def label_table_def)

lemma reference_sample_distinct: "distinct (map fst reference_sample)"
  by (simp add: reference_sample_def)

lemma reference_sample_struct:
  "(''struct_typ'', ObjectCol [''URM'', ''C1'', ''W1'', ''URM'', ''S1'', ''C4'', ''PC1''])
     \<in> set reference_sample"
  by (simp add: reference_sample_def)

lemma sample_struct_set:
  "set [''URM'', ''C1'', ''W1'', ''URM'', ''S1'', ''C4'', ''PC1''] =
     {''C1'', ''C4'', ''PC1'', ''S1'', ''URM'', ''W1''}"
  by (simp only: list.set insert_commute insert_absorb2)

lemma sample_encode_URM: "fst (encode sample_encoders ''struct_typ'' ''URM'') = Inr 4"
  by (simp add: sample_encoders_def encode_def transform_def encode_values_def
      map_to_integer_def label_table_def)

lemma sample_encode_RES1: "fst (encode sample_encoders ''occ_type'' ''RES1'') = Inr 6"
  by (simp add: sample_encoders_def encode_def transform_def encode_values_def
      map_to_integer_def label_table_def)

lemma sample_unknown_struct:
  "''UNKNOWN_CODE'' \<notin> set [''URM'', ''C1'', ''W1'', ''URM'', ''S1'', ''C4'', ''PC1'']"
  by simp

lemma sample_URM_in_column:
  "''URM'' \<in> set [''URM'', ''C1'', ''W1'', ''URM'', ''S1'', ''C4'', ''PC1'']"
  by simp

lemma reference_sample_occ:
  "(''occ_type'', ObjectCol [''RES1'', ''COM1'', ''IND1'', ''AGR1'', ''EDU1'', ''REL1'', ''GOV1''])
     \<in> set reference_sample"
  by (simp add: reference_sample_def)

lemma sample_struct_covers:
  "{''C1'', ''C4'', ''PC1'', ''S1'', ''URM'', ''W1''}
     \<subseteq> set [''URM'', ''C1'', ''W1'', ''URM'', ''S1'', ''C4'', ''PC1'']"
  by (simp only: sample_struct_set subset_refl)

lemma sample_occ_covers:
  "{''RES1'', ''COM1'', ''IND1'', ''AGR1'', ''EDU1'', ''REL1'', ''GOV1''}
     \<subseteq> set [''RES1'', ''COM1'', ''IND1'', ''AGR1'', ''EDU1'', ''REL1'', ''GOV1'']"
  by (simp only: list.set subset_refl)

lemma en_wood_option: "''Wooden Frame (W1)'' \<in> set (struct_options ''en'')"
  by (simp add: struct_options_def struct_type_display_def STRUCT_TYPES_BY_LANG_def
      STRUCT_TYPES_en_def)

lemma en_educational_option: "''Educational'' \<in> set (occ_options ''en'')"
  by (simp add: occ_options_def occ_type_display_def OCC_TYPES_BY_LANG_def OCC_TYPES_en_def)

lemma en_URM: "struct_typ ''en'' ''Unreinforced Masonry (URM)'' = Inr ''URM''"
  by (simp add: struct_typ_def struct_type_display_def STRUCT_TYPES_BY_LANG_def
      STRUCT_TYPES_en_def)

lemma de_URM: "struct_typ ''de'' ''Unbewehrtes Mauerwerk (URM)'' = Inr ''URM''"
  by (simp add: struct_typ_def struct_type_display_def STRUCT_TYPES_BY_LANG_def
      STRUCT_TYPES_de_def)

lemma en_COM1: "occ_type_code ''en'' ''Commercial'' = Inr ''COM1''"
  by (simp add: occ_type_code_def occ_type_display_def OCC_TYPES_BY_LANG_def OCC_TYPES_en_def)

lemma de_COM1: "occ_type_code ''de'' ''Gewerblich'' = Inr ''COM1''"
  by (simp add: occ_type_code_def occ_type_display_def OCC_TYPES_BY_LANG_def OCC_TYPES_de_def)

lemma tr_residential_option: "''Konut (Residential)'' \<in> set (occ_options ''tr'')"
  by (simp add: occ_options_def occ_type_display_def OCC_TYPES_BY_LANG_def OCC_TYPES_tr_def)

lemma tr_residential_family:
  "map_of (occ_type_display ''tr'') ''Konut (Residential)'' = Some [''RES1'', ''RES3'', ''RES4'']"
  by (simp add: occ_type_display_def OCC_TYPES_BY_LANG_def OCC_TYPES_tr_def)

lemma empty_csv_distinct: "distinct (map fst empty_csv)"
  by (simp add: empty_csv_def)

lemma empty_csv_index: "''Unnamed: 0'' \<in> fst ` set empty_csv"
  by (simp add: empty_csv_def)

lemma empty_csv_struct: "''struct_typ'' \<noteq> ''Unnamed: 0'' \<and> (''struct_typ'', ObjectCol []) \<in> set empty_csv"
  by (simp add: empty_csv_def)

lemma empty_csv_year: "''year_built'' \<notin> fst ` set empty_csv"
  by (simp add: empty_csv_def)

section \<open>The claims\<close>

text \<open>
  C1. For a table whose columns have distinct names, the loop succeeds, and the encoder it
  registers for a text column \<open>F\<close> with cells \<open>y\<close> holds the distinct values of \<open>y\<close> in
  ascending string order. The code of a value is the number of distinct values below it,
  so the \<open>k\<close> distinct values get the codes \<open>0\<close> to \<open>k - 1\<close> in that order. The table
  depends on the set of values only, hence is the same at every rebuild. For the six
  structural types the codes are C1:0, C4:1, PC1:2, S1:3, URM:4, W1:5.
\<close>

theorem encoder_codes_lexicographic:
  assumes "distinct (map fst data)" and "(F, ObjectCol y) \<in> set data"
  shows "\<exists>data' encoders.
           build_encoders data = Inr (data', encoders) \<and>
           encoders F = Some \<lparr>classes = sorted_list_of_set (set y)\<rparr> \<and>
           (\<forall>v\<in>set y. fst (encode encoders F v) = Inr (card {u \<in> set y. u < v})) \<and>
           (set y = {''C1'', ''C4'', ''PC1'', ''S1'', ''URM'', ''W1''} \<longrightarrow>
              fst (encode encoders F ''C1'') = Inr 0 \<and>
              fst (encode encoders F ''C4'') = Inr 1 \<and>
              fst (encode encoders F ''PC1'') = Inr 2 \<and>
              fst (encode encoders F ''S1'') = Inr 3 \<and>
              fst (encode encoders F ''URM'') = Inr 4 \<and>
              fst (encode encoders F ''W1'') = Inr 5)"
proof -
  obtain data' encoders where b: "build_encoders data = Inr (data', encoders)"
    using build_encoders_total by blast
  from assms b have e: "encoders F = Some \<lparr>classes = unique_python y\<rparr>"
    by (rule build_encoders_object)
  then have c: "encoders F = Some \<lparr>classes = sorted_list_of_set (set y)\<rparr>"
    by (simp only: unique_python_sorted_list_of_set)
  have k: "\<forall>v\<in>set y. fst (encode encoders F v) = Inr (card {u \<in> set y. u < v})"
  proof
    fix v assume "v \<in> set y"
    with e show "fst (encode encoders F v) = Inr (card {u \<in> set y. u < v})"
      by (rule encode_fitted_known)
  qed
  have six: "set y = {''C1'', ''C4'', ''PC1'', ''S1'', ''URM'', ''W1''} \<longrightarrow>
              fst (encode encoders F ''C1'') = Inr 0 \<and>
              fst (encode encoders F ''C4'') = Inr 1 \<and>
              fst (encode encoders F ''PC1'') = Inr 2 \<and>
              fst (encode encoders F ''S1'') = Inr 3 \<and>
              fst (encode encoders F ''URM'') = Inr 4 \<and>
              fst (encode encoders F ''W1'') = Inr 5"
  proof
    assume s: "set y = {''C1'', ''C4'', ''PC1'', ''S1'', ''URM'', ''W1''}"
    from c have "encoders F = Some \<lparr>classes = [''C1'', ''C4'', ''PC1'', ''S1'', ''URM'', ''W1'']\<rparr>"
      unfolding s six_sorted .
    then show "fst (encode encoders F ''C1'') = Inr 0 \<and>
              fst (encode encoders F ''C4'') = Inr 1 \<and>
              fst (encode encoders F ''PC1'') = Inr 2 \<and>
              fst (encode encoders F ''S1'') = Inr 3 \<and>
              fst (encode encoders F ''URM'') = Inr 4 \<and>
              fst (encode encoders F ''W1'') = Inr 5"
      by (rule six_codes)
  qed
  from b c k six show ?thesis by (intro exI conjI)
qed

text \<open>
  The sample table satisfies the hypotheses; its structural column lists the six types
  out of order and with a repetition.
\<close>

theorem encoder_codes_lexicographic_witness:
  "distinct (map fst reference_sample) \<and>
   (''struct_typ'', ObjectCol [''URM'', ''C1'', ''W1'', ''URM'', ''S1'', ''C4'', ''PC1''])
     \<in> set reference_sample \<and>
   fst (encode sample_encoders ''struct_typ'' ''C1'') = Inr 0 \<and>
   fst (encode sample_encoders ''struct_typ'' ''C4'') = Inr 1 \<and>
   fst (encode sample_encoders ''struct_typ'' ''PC1'') = Inr 2 \<and>
   fst (encode sample_encoders ''struct_typ'' ''S1'') = Inr 3 \<and>
   fst (encode sample_encoders ''struct_typ'' ''URM'') = Inr 4 \<and>
   fst (encode sample_encoders ''struct_typ'' ''W1'') = Inr 5"
proof -
  from encoder_codes_lexicographic [OF reference_sample_distinct reference_sample_struct]
  obtain data' encoders where
    b: "build_encoders reference_sample = Inr (data', encoders)" and
    s: "set [''URM'', ''C1'', ''W1'', ''URM'', ''S1'', ''C4'', ''PC1''] =
          {''C1'', ''C4'', ''PC1'', ''S1'', ''URM'', ''W1''} \<longrightarrow>
        fst (encode encoders ''struct_typ'' ''C1'') = Inr 0 \<and>
        fst (encode encoders ''struct_typ'' ''C4'') = Inr 1 \<and>
        fst (encode encoders ''struct_typ'' ''PC1'') = Inr 2 \<and>
        fst (encode encoders ''struct_typ'' ''S1'') = Inr 3 \<and>
        fst (encode encoders ''struct_typ'' ''URM'') = Inr 4 \<and>
        fst (encode encoders ''struct_typ'' ''W1'') = Inr 5"
    by (elim exE conjE) (rule that, assumption+)
  from b have e: "encoders = sample_encoders"
    by (simp only: reference_sample_build sum.inject prod.inject)
  from s have "fst (encode encoders ''struct_typ'' ''C1'') = Inr 0 \<and>
        fst (encode encoders ''struct_typ'' ''C4'') = Inr 1 \<and>
        fst (encode encoders ''struct_typ'' ''PC1'') = Inr 2 \<and>
        fst (encode encoders ''struct_typ'' ''S1'') = Inr 3 \<and>
        fst (encode encoders ''struct_typ'' ''URM'') = Inr 4 \<and>
        fst (encode encoders ''struct_typ'' ''W1'') = Inr 5"
    using sample_struct_set by (rule mp)
  then show ?thesis
    unfolding e using reference_sample_distinct reference_sample_struct by (intro conjI) (elim conjE, assumption)+
qed

text \<open>
  C2. When both raw codes are known to the registry, the array has a single row of length
  six: the structural code, the occupancy code, the year built, the number of stories,
  the magnitude and the distance, in this order, the four numeric inputs with the values
  that were passed in. The registry comes back as it was given.
\<close>

theorem X_array_layout:
  assumes "fst (encode encoders ''struct_typ'' s) = Inr a"
    and "fst (encode encoders ''occ_type'' oc) = Inr b"
  shows "\<exists>row. fst (X_array encoders s oc yb ns m d) = Inr [row] \<and>
           length row = 6 \<and>
           row ! 0 = real a \<and> row ! 1 = real b \<and>
           row ! 2 = real_of_int yb \<and> row ! 3 = real_of_int ns \<and>
           row ! 4 = m \<and> row ! 5 = d \<and>
           snd (X_array encoders s oc yb ns m d) = encoders"
proof -
  let ?row = "[real a, real b, real_of_int yb, real_of_int ns, m, d]"
  from assms have "X_array encoders s oc yb ns m d = (Inr [?row], encoders)"
    by (rule X_array_ok)
  then have "fst (X_array encoders s oc yb ns m d) = Inr [?row] \<and>
           length ?row = 6 \<and>
           ?row ! 0 = real a \<and> ?row ! 1 = real b \<and>
           ?row ! 2 = real_of_int yb \<and> ?row ! 3 = real_of_int ns \<and>
           ?row ! 4 = m \<and> ?row ! 5 = d \<and>
           snd (X_array encoders s oc yb ns m d) = encoders"
    by simp
  then show ?thesis by (rule exI)
qed

text \<open>
  The scenario of the specification: URM and RES1 with the form's default numbers, on
  the sample registry.
\<close>

theorem X_array_layout_witness:
  "fst (encode sample_encoders ''struct_typ'' ''URM'') = Inr 4 \<and>
   fst (encode sample_encoders ''occ_type'' ''RES1'') = Inr 6 \<and>
   X_array sample_encoders ''URM'' ''RES1'' 2000 0 5 3 = (Inr [[4, 6, 2000, 0, 5, 3]], sample_encoders)"
proof -
  from X_array_layout [OF sample_encode_URM sample_encode_RES1, of 2000 0 5 3]
  obtain row where r: "fst (X_array sample_encoders ''URM'' ''RES1'' 2000 0 5 3) = Inr [row]"
    and l: "length row = 6"
    and v: "row ! 0 = real 4" "row ! 1 = real 6" "row ! 2 = real_of_int 2000"
      "row ! 3 = real_of_int 0" "row ! 4 = 5" "row ! 5 = 3"
    and s: "snd (X_array sample_encoders ''URM'' ''RES1'' 2000 0 5 3) = sample_encoders"
    by (elim exE conjE) (rule that, assumption+)
  have "row = [4, 6, 2000, 0, 5, 3]"
  proof (rule nth_equalityI)
    show "length row = length [4, 6, 2000, 0, 5, 3 :: real]" using l by simp
    fix i assume "i < length row"
    with l have "i \<in> {0, 1, 2, 3, 4, 5}" by auto
    with v show "row ! i = [4, 6, 2000, 0, 5, 3] ! i" by auto
  qed
  with r s have "X_array sample_encoders ''URM'' ''RES1'' 2000 0 5 3 =
      (Inr [[4, 6, 2000, 0, 5, 3]], sample_encoders)"
    by (metis prod.collapse)
  with sample_encode_URM sample_encode_RES1 show ?thesis by (intro conjI)
qed

text \<open>
  C3. A value that does not occur in column \<open>F\<close> of the reference table is rejected:
  encoding it under \<open>F\<close> raises \<^verbatim>\<open>ValueError\<close> (scikit-learn's "previously unseen
  labels", the unknown-category error), and no code is returned. The exception leaves the
  array expression as it is, for the structural field and, once the structural code has
  been found, for the occupancy field.
\<close>

theorem unseen_value_is_rejected:
  assumes "distinct (map fst data)" and "(F, ObjectCol y) \<in> set data" and "v \<notin> set y"
  shows "\<exists>data' encoders.
           build_encoders data = Inr (data', encoders) \<and>
           fst (encode encoders F v) = Inl ValueError \<and>
           (\<forall>c. fst (encode encoders F v) \<noteq> Inr c) \<and>
           (F = ''struct_typ'' \<longrightarrow>
              (\<forall>oc yb ns m d. fst (X_array encoders v oc yb ns m d) = Inl ValueError)) \<and>
           (F = ''occ_type'' \<longrightarrow>
              (\<forall>s a yb ns m d. fst (encode encoders ''struct_typ'' s) = Inr a \<longrightarrow>
                 fst (X_array encoders s v yb ns m d) = Inl ValueError))"
proof -
  obtain data' encoders where b: "build_encoders data = Inr (data', encoders)"
    using build_encoders_total by blast
  from assms(1,2) b have e: "encoders F = Some \<lparr>classes = unique_python y\<rparr>"
    by (rule build_encoders_object)
  from e assms(3) have u: "fst (encode encoders F v) = Inl ValueError"
    by (rule encode_fitted_unseen)
  then have n: "\<forall>c. fst (encode encoders F v) \<noteq> Inr c" by simp
  have xs: "F = ''struct_typ'' \<longrightarrow>
              (\<forall>oc yb ns m d. fst (X_array encoders v oc yb ns m d) = Inl ValueError)"
    using u by (auto simp only: X_array_struct_error fst_conv)
  have xo: "F = ''occ_type'' \<longrightarrow>
              (\<forall>s a yb ns m d. fst (encode encoders ''struct_typ'' s) = Inr a \<longrightarrow>
                 fst (X_array encoders s v yb ns m d) = Inl ValueError)"
    using u by (auto simp only: X_array_occ_error fst_conv)
  from b u n xs xo show ?thesis by (intro exI conjI)
qed

text \<open>
  On the sample table the structural type \<^verbatim>\<open>UNKNOWN_CODE\<close> is rejected.
\<close>

theorem unseen_value_is_rejected_witness:
  "distinct (map fst reference_sample) \<and>
   (''struct_typ'', ObjectCol [''URM'', ''C1'', ''W1'', ''URM'', ''S1'', ''C4'', ''PC1''])
     \<in> set reference_sample \<and>
   ''UNKNOWN_CODE'' \<notin> set [''URM'', ''C1'', ''W1'', ''URM'', ''S1'', ''C4'', ''PC1''] \<and>
   fst (encode sample_encoders ''struct_typ'' ''UNKNOWN_CODE'') = Inl ValueError \<and>
   fst (X_array sample_encoders ''UNKNOWN_CODE'' ''RES1'' 2000 0 5 3) = Inl ValueError"
proof -
  from unseen_value_is_rejected
    [OF reference_sample_distinct reference_sample_struct sample_unknown_struct]
  obtain data' encoders where
    b: "build_encoders reference_sample = Inr (data', encoders)" and
    u: "fst (encode encoders ''struct_typ'' ''UNKNOWN_CODE'') = Inl ValueError" and
    x: "''struct_typ'' = ''struct_typ'' \<longrightarrow>
          (\<forall>oc yb ns m d. fst (X_array encoders ''UNKNOWN_CODE'' oc yb ns m d) = Inl ValueError)"
    by (elim exE conjE) (rule that, assumption+)
  from b have e: "encoders = sample_encoders"
    by (simp only: reference_sample_build sum.inject prod.inject)
  from x have "fst (X_array encoders ''UNKNOWN_CODE'' ''RES1'' 2000 0 5 3) = Inl ValueError"
    by (simp only: simp_thms)
  with u reference_sample_distinct reference_sample_struct sample_unknown_struct
  show ?thesis unfolding e by (intro conjI)
qed

text \<open>
  C4. When a label of one language and a label of another resolve to the same structural
  code, and likewise for the occupancy code, the form yields the same result from either
  pair: the array built from the two codes. The language enters the array in no other
  way, and the dictionaries of any two languages list the same codes in the same order.
\<close>

theorem locale_independence:
  assumes "struct_typ lang1 choice1 = Inr s" and "struct_typ lang2 choice2 = Inr s"
    and "occ_type_code lang1 occ1 = Inr c" and "occ_type_code lang2 occ2 = Inr c"
  shows "form_array encoders lang1 choice1 occ1 yb ns m d =
           form_array encoders lang2 choice2 occ2 yb ns m d \<and>
         form_array encoders lang1 choice1 occ1 yb ns m d = X_array encoders s c yb ns m d \<and>
         map snd (struct_type_display lang1) = map snd (struct_type_display lang2) \<and>
         map snd (occ_type_display lang1) = map snd (occ_type_display lang2)"
proof (intro conjI)
  have 1: "form_array encoders lang1 choice1 occ1 yb ns m d = X_array encoders s c yb ns m d"
    using assms(1,3) by (rule form_array_resolved)
  have 2: "form_array encoders lang2 choice2 occ2 yb ns m d = X_array encoders s c yb ns m d"
    using assms(2,4) by (rule form_array_resolved)
  from 1 2 show "form_array encoders lang1 choice1 occ1 yb ns m d =
           form_array encoders lang2 choice2 occ2 yb ns m d" by (rule trans_sym)
  from 1 show "form_array encoders lang1 choice1 occ1 yb ns m d =
           X_array encoders s c yb ns m d" .
  show "map snd (struct_type_display lang1) = map snd (struct_type_display lang2)"
    by (simp only: struct_type_display_codes)
  show "map snd (occ_type_display lang1) = map snd (occ_type_display lang2)"
    by (simp only: occ_type_display_codes)
qed

text \<open>
  The English and the German labels for unreinforced masonry and for commercial use.
\<close>

theorem locale_independence_witness:
  "struct_typ ''en'' ''Unreinforced Masonry (URM)'' = Inr ''URM'' \<and>
   struct_typ ''de'' ''Unbewehrtes Mauerwerk (URM)'' = Inr ''URM'' \<and>
   occ_type_code ''en'' ''Commercial'' = Inr ''COM1'' \<and>
   occ_type_code ''de'' ''Gewerblich'' = Inr ''COM1'' \<and>
   form_array sample_encoders ''en'' ''Unreinforced Masonry (URM)'' ''Commercial'' 2000 0 5 3 =
     form_array sample_encoders ''de'' ''Unbewehrtes Mauerwerk (URM)'' ''Gewerblich'' 2000 0 5 3"
proof -
  from locale_independence [OF en_URM de_URM en_COM1 de_COM1, of sample_encoders 2000 0 5 3]
  have "form_array sample_encoders ''en'' ''Unreinforced Masonry (URM)'' ''Commercial'' 2000 0 5 3 =
     form_array sample_encoders ''de'' ''Unbewehrtes Mauerwerk (URM)'' ''Gewerblich'' 2000 0 5 3"
    by (elim conjE)
  with en_URM de_URM en_COM1 de_COM1 show ?thesis by (intro conjI)
qed

text \<open>
  C5. In every language, a label offered by the occupancy select box names one of the
  seven families of codes, and the code taken is the first of that family: RES1 of
  RES1, RES3, RES4, and so on.
\<close>

theorem occupancy_label_first_of_family:
  assumes "occ_choice \<in> set (occ_options lang)"
  shows "\<exists>code rest.
           map_of (occ_type_display lang) occ_choice = Some (code # rest) \<and>
           occ_type_code lang occ_choice = Inr code \<and>
           code # rest \<in> set [[''RES1'', ''RES3'', ''RES4''],
                              [''COM1'', ''COM2'', ''COM3'', ''COM4'', ''COM7'', ''COM8''],
                              [''IND1'', ''IND2'', ''IND3''],
                              [''AGR1''], [''EDU1''], [''REL1''], [''GOV1'']]"
proof -
  from occ_family_resolves [OF assms] obtain family where
    c: "map_of (occ_type_display lang) occ_choice = Some family" and
    m: "family \<in> set [[''RES1'', ''RES3'', ''RES4''],
                      [''COM1'', ''COM2'', ''COM3'', ''COM4'', ''COM7'', ''COM8''],
                      [''IND1'', ''IND2'', ''IND3''],
                      [''AGR1''], [''EDU1''], [''REL1''], [''GOV1'']]"
    by (elim exE conjE) (rule that, assumption+)
  from family_first [OF m] obtain code rest where f: "family = code # rest"
    by (elim exE conjE) (rule that, assumption+)
  from c f have "occ_type_code lang occ_choice = Inr code"
    by (simp add: occ_type_code_def)
  with c m show ?thesis unfolding f by (intro exI conjI)
qed

text \<open>
  The Turkish label for residential use resolves to RES1.
\<close>

theorem occupancy_label_first_of_family_witness:
  "''Konut (Residential)'' \<in> set (occ_options ''tr'') \<and>
   map_of (occ_type_display ''tr'') ''Konut (Residential)'' = Some [''RES1'', ''RES3'', ''RES4''] \<and>
   occ_type_code ''tr'' ''Konut (Residential)'' = Inr ''RES1''"
proof -
  from occupancy_label_first_of_family [OF tr_residential_option]
  obtain code rest where
    c: "map_of (occ_type_display ''tr'') ''Konut (Residential)'' = Some (code # rest)" and
    r: "occ_type_code ''tr'' ''Konut (Residential)'' = Inr code"
    by (elim exE conjE) (rule that, assumption+)
  from c have "code = ''RES1''"
    by (simp only: tr_residential_family option.inject list.inject)
  with r have "occ_type_code ''tr'' ''Konut (Residential)'' = Inr ''RES1''" by (simp only:)
  with tr_residential_option tr_residential_family show ?thesis by (intro conjI)
qed

text \<open>
  C6. Encoding and decoding are inverse to each other on a fitted column: every value of
  the column has a code below the number \<open>k\<close> of distinct values that decodes to the
  value, and every code below \<open>k\<close> decodes to a value of the column that encodes to the
  code. So the table is a bijection between the observed values and the codes
  \<open>0\<close> to \<open>k - 1\<close>.
\<close>

theorem encode_decode_round_trip:
  assumes "distinct (map fst data)" and "(F, ObjectCol y) \<in> set data"
  shows "\<exists>data' encoders.
           build_encoders data = Inr (data', encoders) \<and>
           (\<forall>v\<in>set y. \<exists>c<card (set y).
              fst (encode encoders F v) = Inr c \<and> decode encoders F c = Inr v) \<and>
           (\<forall>c<card (set y). \<exists>v\<in>set y.
              decode encoders F c = Inr v \<and> fst (encode encoders F v) = Inr c)"
proof -
  obtain data' encoders where b: "build_encoders data = Inr (data', encoders)"
    using build_encoders_total by blast
  let ?xs = "unique_python y"
  from assms b have e: "encoders F = Some \<lparr>classes = ?xs\<rparr>"
    by (rule build_encoders_object)
  have len: "length ?xs = card (set y)"
    using distinct_card [of ?xs] by (simp add: unique_python_props)
  have pos: "fst (encode encoders F (?xs ! i)) = Inr i \<and> decode encoders F i = Inr (?xs ! i)"
    if "i < length ?xs" for i
  proof -
    from that have "fst (encode encoders F (classes \<lparr>classes = ?xs\<rparr> ! i)) = Inr i"
      using encode_nth [of encoders F "\<lparr>classes = ?xs\<rparr>" i] e
      by (simp add: unique_python_props)
    moreover from that len have "decode encoders F i = Inr (?xs ! i)"
      using decode_fitted [of encoders F y i] e by (simp add: unique_python_sorted_list_of_set)
    ultimately show ?thesis by simp
  qed
  have fwd: "\<forall>v\<in>set y. \<exists>c<card (set y).
              fst (encode encoders F v) = Inr c \<and> decode encoders F c = Inr v"
  proof
    fix v assume "v \<in> set y"
    then have "v \<in> set ?xs" by (simp add: unique_python_props)
    then obtain i where i: "i < length ?xs" "?xs ! i = v" by (auto simp: in_set_conv_nth)
    with pos [of i] len
    show "\<exists>c<card (set y). fst (encode encoders F v) = Inr c \<and> decode encoders F c = Inr v"
      by auto
  qed
  have bwd: "\<forall>c<card (set y). \<exists>v\<in>set y.
              decode encoders F c = Inr v \<and> fst (encode encoders F v) = Inr c"
  proof (intro allI impI)
    fix c assume "c < card (set y)"
    with len have c: "c < length ?xs" by simp
    then have "?xs ! c \<in> set ?xs" by simp
    then have "?xs ! c \<in> set y" by (simp add: unique_python_props)
    with pos [OF c]
    show "\<exists>v\<in>set y. decode encoders F c = Inr v \<and> fst (encode encoders F v) = Inr c"
      by blast
  qed
  from b fwd bwd show ?thesis by (intro exI conjI)
qed

text \<open>
  On the sample table URM has code 4 and 4 decodes to URM.
\<close>

theorem encode_decode_round_trip_witness:
  "distinct (map fst reference_sample) \<and>
   (''struct_typ'', ObjectCol [''URM'', ''C1'', ''W1'', ''URM'', ''S1'', ''C4'', ''PC1''])
     \<in> set reference_sample \<and>
   fst (encode sample_encoders ''struct_typ'' ''URM'') = Inr 4 \<and>
   decode sample_encoders ''struct_typ'' 4 = Inr ''URM''"
proof -
  from encode_decode_round_trip [OF reference_sample_distinct reference_sample_struct]
  obtain data' encoders where
    b: "build_encoders reference_sample = Inr (data', encoders)" and
    f: "\<forall>v\<in>set [''URM'', ''C1'', ''W1'', ''URM'', ''S1'', ''C4'', ''PC1''].
          \<exists>c<card (set [''URM'', ''C1'', ''W1'', ''URM'', ''S1'', ''C4'', ''PC1'']).
            fst (encode encoders ''struct_typ'' v) = Inr c \<and>
            decode encoders ''struct_typ'' c = Inr v"
    by (elim exE conjE) (rule that, assumption+)
  from b have e: "encoders = sample_encoders"
    by (simp only: reference_sample_build sum.inject prod.inject)
  from f sample_URM_in_column obtain c where
    c: "fst (encode encoders ''struct_typ'' ''URM'') = Inr c"
       "decode encoders ''struct_typ'' c = Inr ''URM''"
    by (elim ballE exE conjE) (rule that, assumption+, erule notE, assumption)
  from c(1) have "c = 4" unfolding e by (simp only: sample_encode_URM sum.inject)
  with c(2) have "decode sample_encoders ''struct_typ'' 4 = Inr ''URM''"
    unfolding e by (simp only:)
  with reference_sample_distinct reference_sample_struct sample_encode_URM
  show ?thesis by (intro conjI)
qed

text \<open>
  C7, as stated, does not hold. A table without records and a table without any text
  column are both loaded without an exception; the first gives each text column an
  encoder with an empty table, the second gives an empty registry.
\<close>

theorem load_reference_empty_counterexample:
  "load_reference
     [(''Unnamed: 0'', ObjectCol []), (''struct_typ'', ObjectCol []), (''occ_type'', ObjectCol [])] =
   Inr ([(''struct_typ'', IntCol []), (''occ_type'', IntCol [])],
        [''struct_typ'' \<mapsto> \<lparr>classes = []\<rparr>, ''occ_type'' \<mapsto> \<lparr>classes = []\<rparr>]) \<and>
   load_reference [(''Unnamed: 0'', IntCol [0, 1]), (''year_built'', IntCol [1990, 2001])] =
   Inr ([(''year_built'', IntCol [1990, 2001])], Map.empty)"
  by (simp add: load_reference_def drop_column_def build_encoders_def fit_transform_def
      unique_python_def map_to_integer_def)

text \<open>
  C7, amended. Loading performs no check of the records. For a table with distinct
  column names it fails only when there is no column \<^verbatim>\<open>Unnamed: 0\<close> to drop, with
  \<^verbatim>\<open>KeyError\<close>. Otherwise it succeeds: a text column without records gets an encoder
  with an empty table, under which encoding any value raises \<^verbatim>\<open>ValueError\<close>, and a
  field that is no column of the table gets no encoder, so that encoding under it raises
  \<^verbatim>\<open>KeyError\<close>. The missing data shows when the form's value is encoded, not when the
  registry is built.
\<close>

theorem load_reference_checks_nothing:
  assumes "distinct (map fst csv)"
  shows "(''Unnamed: 0'' \<notin> fst ` set csv \<longrightarrow> load_reference csv = Inl KeyError) \<and>
         (''Unnamed: 0'' \<in> fst ` set csv \<longrightarrow>
            (\<exists>data encoders.
               load_reference csv = Inr (data, encoders) \<and>
               (\<forall>F. F \<noteq> ''Unnamed: 0'' \<and> (F, ObjectCol []) \<in> set csv \<longrightarrow>
                  encoders F = Some \<lparr>classes = []\<rparr> \<and>
                  (\<forall>v. fst (encode encoders F v) = Inl ValueError)) \<and>
               (\<forall>F. F \<notin> fst ` set csv \<longrightarrow>
                  encoders F = None \<and> (\<forall>v. fst (encode encoders F v) = Inl KeyError))))"
proof (intro conjI impI)
  assume "''Unnamed: 0'' \<notin> fst ` set csv"
  then show "load_reference csv = Inl KeyError"
    by (simp add: load_reference_def drop_column_absent)
next
  assume p: "''Unnamed: 0'' \<in> fst ` set csv"
  let ?data = "filter (\<lambda>(name, c). name \<noteq> ''Unnamed: 0'') csv"
  from p have l: "load_reference csv = build_encoders ?data"
    by (simp add: load_reference_def drop_column_present)
  obtain data' encoders where b: "build_encoders ?data = Inr (data', encoders)"
    using build_encoders_total by blast
  from assms have dd: "distinct (map fst ?data)" by (rule filter_names_distinct)
  have empty: "encoders F = Some \<lparr>classes = []\<rparr> \<and>
                 (\<forall>v. fst (encode encoders F v) = Inl ValueError)"
    if "F \<noteq> ''Unnamed: 0'' \<and> (F, ObjectCol []) \<in> set csv" for F
  proof -
    from that have "(F, ObjectCol []) \<in> set ?data" by (simp add: filter_names_keeps)
    with dd have e: "encoders F = Some \<lparr>classes = unique_python []\<rparr>"
      using b by (rule build_encoders_object)
    have "fst (encode encoders F v) = Inl ValueError" for v
      using e by (rule encode_fitted_unseen) simp
    with e show ?thesis by (simp add: unique_python_Nil)
  qed
  have absent: "encoders F = None \<and> (\<forall>v. fst (encode encoders F v) = Inl KeyError)"
    if "F \<notin> fst ` set csv" for F
  proof -
    from that have "F \<notin> fst ` set ?data" by (rule filter_names_absent)
    then have "encoders F = None" using b by (rule build_encoders_absent)
    then show ?thesis by (simp add: encode_no_encoder)
  qed
  from l b empty absent
  show "\<exists>data encoders.
               load_reference csv = Inr (data, encoders) \<and>
               (\<forall>F. F \<noteq> ''Unnamed: 0'' \<and> (F, ObjectCol []) \<in> set csv \<longrightarrow>
                  encoders F = Some \<lparr>classes = []\<rparr> \<and>
                  (\<forall>v. fst (encode encoders F v) = Inl ValueError)) \<and>
               (\<forall>F. F \<notin> fst ` set csv \<longrightarrow>
                  encoders F = None \<and> (\<forall>v. fst (encode encoders F v) = Inl KeyError))"
    by (intro exI [of _ data'] exI [of _ encoders] conjI allI impI) simp_all
qed

text \<open>
  The table without records: it loads, and then no structural type can be encoded.
\<close>

theorem load_reference_checks_nothing_witness:
  "distinct (map fst empty_csv) \<and> ''Unnamed: 0'' \<in> fst ` set empty_csv \<and>
   (\<exists>data encoders.
      load_reference empty_csv = Inr (data, encoders) \<and>
      fst (encode encoders ''struct_typ'' ''URM'') = Inl ValueError \<and>
      fst (encode encoders ''year_built'' ''1990'') = Inl KeyError)"
proof -
  from load_reference_checks_nothing [OF empty_csv_distinct]
  have "''Unnamed: 0'' \<in> fst ` set empty_csv \<longrightarrow>
            (\<exists>data encoders.
               load_reference empty_csv = Inr (data, encoders) \<and>
               (\<forall>F. F \<noteq> ''Unnamed: 0'' \<and> (F, ObjectCol []) \<in> set empty_csv \<longrightarrow>
                  encoders F = Some \<lparr>classes = []\<rparr> \<and>
                  (\<forall>v. fst (encode encoders F v) = Inl ValueError)) \<and>
               (\<forall>F. F \<notin> fst ` set empty_csv \<longrightarrow>
                  encoders F = None \<and> (\<forall>v. fst (encode encoders F v) = Inl KeyError)))"
    by (rule conjunct2)
  from this empty_csv_index obtain data encoders where
    l: "load_reference empty_csv = Inr (data, encoders)" and
    e: "\<forall>F. F \<noteq> ''Unnamed: 0'' \<and> (F, ObjectCol []) \<in> set empty_csv \<longrightarrow>
                  encoders F = Some \<lparr>classes = []\<rparr> \<and>
                  (\<forall>v. fst (encode encoders F v) = Inl ValueError)" and
    a: "\<forall>F. F \<notin> fst ` set empty_csv \<longrightarrow>
                  encoders F = None \<and> (\<forall>v. fst (encode encoders F v) = Inl KeyError)"
    by (elim impE exE conjE) (assumption, rule that, assumption+)
  from e have "''struct_typ'' \<noteq> ''Unnamed: 0'' \<and> (''struct_typ'', ObjectCol []) \<in> set empty_csv \<longrightarrow>
                  encoders ''struct_typ'' = Some \<lparr>classes = []\<rparr> \<and>
                  (\<forall>v. fst (encode encoders ''struct_typ'' v) = Inl ValueError)"
    by (rule spec)
  from this empty_csv_struct
  have "encoders ''struct_typ'' = Some \<lparr>classes = []\<rparr> \<and>
        (\<forall>v. fst (encode encoders ''struct_typ'' v) = Inl ValueError)"
    by (rule mp)
  then have "\<forall>v. fst (encode encoders ''struct_typ'' v) = Inl ValueError"
    by (rule conjunct2)
  then have 1: "fst (encode encoders ''struct_typ'' ''URM'') = Inl ValueError" by (rule spec)
  from a have "''year_built'' \<notin> fst ` set empty_csv \<longrightarrow>
                  encoders ''year_built'' = None \<and>
                  (\<forall>v. fst (encode encoders ''year_built'' v) = Inl KeyError)"
    by (rule spec)
  from this empty_csv_year
  have "encoders ''year_built'' = None \<and>
        (\<forall>v. fst (encode encoders ''year_built'' v) = Inl KeyError)"
    by (rule mp)
  then have "\<forall>v. fst (encode encoders ''year_built'' v) = Inl KeyError"
    by (rule conjunct2)
  then have 2: "fst (encode encoders ''year_built'' ''1990'') = Inl KeyError" by (rule spec)
  from l 1 2 have "\<exists>data encoders.
      load_reference empty_csv = Inr (data, encoders) \<and>
      fst (encode encoders ''struct_typ'' ''URM'') = Inl ValueError \<and>
      fst (encode encoders ''year_built'' ''1990'') = Inl KeyError"
    by (intro exI conjI)
  with empty_csv_distinct empty_csv_index show ?thesis by (intro conjI)
qed

text \<open>
  C8. Encoding a value that the column does not hold raises \<^verbatim>\<open>ValueError\<close> and hands
  the registry back unchanged: every value of the column still receives, from the registry
  left by the failed call, the code it had before, and so does every other request.
\<close>

theorem failed_encode_keeps_registry:
  assumes "distinct (map fst data)" and "(F, ObjectCol y) \<in> set data" and "v \<notin> set y"
  shows "\<exists>data' encoders.
           build_encoders data = Inr (data', encoders) \<and>
           fst (encode encoders F v) = Inl ValueError \<and>
           snd (encode encoders F v) = encoders \<and>
           (\<forall>w\<in>set y. \<exists>c.
              fst (encode encoders F w) = Inr c \<and>
              fst (encode (snd (encode encoders F v)) F w) = Inr c) \<and>
           (\<forall>G w. encode (snd (encode encoders F v)) G w = encode encoders G w)"
proof -
  obtain data' encoders where b: "build_encoders data = Inr (data', encoders)"
    using build_encoders_total by blast
  from assms(1,2) b have e: "encoders F = Some \<lparr>classes = unique_python y\<rparr>"
    by (rule build_encoders_object)
  from e assms(3) have u: "fst (encode encoders F v) = Inl ValueError"
    by (rule encode_fitted_unseen)
  have r: "snd (encode encoders F v) = encoders" by (rule encode_registry)
  have k: "\<forall>w\<in>set y. \<exists>c.
              fst (encode encoders F w) = Inr c \<and>
              fst (encode (snd (encode encoders F v)) F w) = Inr c"
  proof
    fix w assume "w \<in> set y"
    with e have "fst (encode encoders F w) = Inr (card {u \<in> set y. u < w})"
      by (rule encode_fitted_known)
    then have "fst (encode encoders F w) = Inr (card {u \<in> set y. u < w}) \<and>
              fst (encode (snd (encode encoders F v)) F w) = Inr (card {u \<in> set y. u < w})"
      by (simp only: r)
    then show "\<exists>c. fst (encode encoders F w) = Inr c \<and>
              fst (encode (snd (encode encoders F v)) F w) = Inr c"
      by (rule exI)
  qed
  have g: "\<forall>G w. encode (snd (encode encoders F v)) G w = encode encoders G w"
    by (simp only: r simp_thms)
  from b u r k g show ?thesis by (intro exI conjI)
qed

text \<open>
  On the sample table, URM still has code 4 after \<^verbatim>\<open>UNKNOWN_CODE\<close> was rejected.
\<close>

theorem failed_encode_keeps_registry_witness:
  "distinct (map fst reference_sample) \<and>
   (''struct_typ'', ObjectCol [''URM'', ''C1'', ''W1'', ''URM'', ''S1'', ''C4'', ''PC1''])
     \<in> set reference_sample \<and>
   ''UNKNOWN_CODE'' \<notin> set [''URM'', ''C1'', ''W1'', ''URM'', ''S1'', ''C4'', ''PC1''] \<and>
   fst (encode sample_encoders ''struct_typ'' ''UNKNOWN_CODE'') = Inl ValueError \<and>
   fst (encode (snd (encode sample_encoders ''struct_typ'' ''UNKNOWN_CODE''))
          ''struct_typ'' ''URM'') = Inr 4"
proof -
  from failed_encode_keeps_registry
    [OF reference_sample_distinct reference_sample_struct sample_unknown_struct]
  obtain data' encoders where
    b: "build_encoders reference_sample = Inr (data', encoders)" and
    u: "fst (encode encoders ''struct_typ'' ''UNKNOWN_CODE'') = Inl ValueError" and
    g: "\<forall>G w. encode (snd (encode encoders ''struct_typ'' ''UNKNOWN_CODE'')) G w =
               encode encoders G w"
    by (elim exE conjE) (rule that, assumption+)
  from b have e: "encoders = sample_encoders"
    by (simp only: reference_sample_build sum.inject prod.inject)
  from g have "encode (snd (encode encoders ''struct_typ'' ''UNKNOWN_CODE''))
                 ''struct_typ'' ''URM'' = encode encoders ''struct_typ'' ''URM''"
    by (elim allE)
  then have "fst (encode (snd (encode sample_encoders ''struct_typ'' ''UNKNOWN_CODE''))
          ''struct_typ'' ''URM'') = Inr 4"
    unfolding e by (simp only: sample_encode_URM)
  with u reference_sample_distinct reference_sample_struct sample_unknown_struct
  show ?thesis unfolding e by (intro conjI)
qed

text \<open>
  C9. The label of the classifier is looked up in the dictionary with the entries
  0: safe, 1: high risk, 2: collapsed (each behind its coloured circle, in the words of
  the chosen language). Any other label raises \<^verbatim>\<open>KeyError\<close>, so whatever is shown
  is one of these three classes.
\<close>

theorem damage_class_enumeration:
  "damage_class t 0 = Inr ([CHR 0xF0, CHR 0x9F, CHR 0x9F, CHR 0xA2] @ '' '' @ safe t) \<and>
   damage_class t 1 = Inr ([CHR 0xF0, CHR 0x9F, CHR 0x9F, CHR 0xA0] @ '' '' @ high_risk t) \<and>
   damage_class t 2 = Inr ([CHR 0xF0, CHR 0x9F, CHR 0x94, CHR 0xB4] @ '' '' @ collapsed t) \<and>
   (\<forall>k. k \<noteq> 0 \<and> k \<noteq> 1 \<and> k \<noteq> 2 \<longrightarrow> damage_class t k = Inl KeyError) \<and>
   (\<forall>k shown. damage_class t k = Inr shown \<longrightarrow>
      shown = [CHR 0xF0, CHR 0x9F, CHR 0x9F, CHR 0xA2] @ '' '' @ safe t \<or>
      shown = [CHR 0xF0, CHR 0x9F, CHR 0x9F, CHR 0xA0] @ '' '' @ high_risk t \<or>
      shown = [CHR 0xF0, CHR 0x9F, CHR 0x94, CHR 0xB4] @ '' '' @ collapsed t)"
proof (intro conjI allI impI)
  show "damage_class t 0 = Inr ([CHR 0xF0, CHR 0x9F, CHR 0x9F, CHR 0xA2] @ '' '' @ safe t)"
    by (simp add: damage_class_cases)
  show "damage_class t 1 = Inr ([CHR 0xF0, CHR 0x9F, CHR 0x9F, CHR 0xA0] @ '' '' @ high_risk t)"
    by (simp add: damage_class_cases)
  show "damage_class t 2 = Inr ([CHR 0xF0, CHR 0x9F, CHR 0x94, CHR 0xB4] @ '' '' @ collapsed t)"
    by (simp add: damage_class_cases)
next
  fix k :: int assume "k \<noteq> 0 \<and> k \<noteq> 1 \<and> k \<noteq> 2"
  then show "damage_class t k = Inl KeyError" by (simp add: damage_class_cases)
next
  fix k shown assume "damage_class t k = Inr shown"
  then show "shown = [CHR 0xF0, CHR 0x9F, CHR 0x9F, CHR 0xA2] @ '' '' @ safe t \<or>
      shown = [CHR 0xF0, CHR 0x9F, CHR 0x9F, CHR 0xA0] @ '' '' @ high_risk t \<or>
      shown = [CHR 0xF0, CHR 0x9F, CHR 0x94, CHR 0xB4] @ '' '' @ collapsed t"
    by (auto simp: damage_class_cases split: if_splits)
qed

text \<open>
  With the English words: label 1 shows "High Risk", label 3 shows nothing.
\<close>

theorem damage_class_enumeration_witness:
  "(3::int) \<noteq> 0 \<and> (3::int) \<noteq> 1 \<and> (3::int) \<noteq> 2 \<and>
   damage_class translation_en 3 = Inl KeyError \<and>
   damage_class translation_en 1 = Inr ([CHR 0xF0, CHR 0x9F, CHR 0x9F, CHR 0xA0] @ '' High Risk'')"
proof -
  have h: "(3::int) \<noteq> 0 \<and> (3::int) \<noteq> 1 \<and> (3::int) \<noteq> 2" by simp
  note t = damage_class_enumeration [of translation_en]
  from t have one: "damage_class translation_en 1 =
               Inr ([CHR 0xF0, CHR 0x9F, CHR 0x9F, CHR 0xA0] @ '' '' @ high_risk translation_en)"
    by (elim conjE)
  from t have other:
    "\<forall>k. k \<noteq> 0 \<and> k \<noteq> 1 \<and> k \<noteq> 2 \<longrightarrow> damage_class translation_en k = Inl KeyError"
    by (elim conjE)
  from other h have "damage_class translation_en 3 = Inl KeyError" by (elim allE impE)
  moreover from one
  have "damage_class translation_en 1 = Inr ([CHR 0xF0, CHR 0x9F, CHR 0x9F, CHR 0xA0] @ '' High Risk'')"
    by (simp add: translation_en_def)
  ultimately show ?thesis using h by (intro conjI) (elim conjE, assumption)+
qed

text \<open>
  C10. Let the structural column of the reference table hold the six structural codes and
  its occupancy column the first code of each of the seven families. Then for every
  language and every pair of labels that the two select boxes offer in that language,
  both resolved codes occur in their columns and the array is built without an exception.
\<close>

theorem form_choices_always_encode:
  assumes "distinct (map fst data)"
    and "(''struct_typ'', ObjectCol ys) \<in> set data"
    and "(''occ_type'', ObjectCol os) \<in> set data"
    and "{''C1'', ''C4'', ''PC1'', ''S1'', ''URM'', ''W1''} \<subseteq> set ys"
    and "{''RES1'', ''COM1'', ''IND1'', ''AGR1'', ''EDU1'', ''REL1'', ''GOV1''} \<subseteq> set os"
    and "struct_display_choice \<in> set (struct_options lang)"
    and "occ_choice \<in> set (occ_options lang)"
  shows "\<exists>data' encoders s c row.
           build_encoders data = Inr (data', encoders) \<and>
           struct_typ lang struct_display_choice = Inr s \<and> s \<in> set ys \<and>
           occ_type_code lang occ_choice = Inr c \<and> c \<in> set os \<and>
           form_array encoders lang struct_display_choice occ_choice yb ns m d =
             (Inr [row], encoders)"
proof -
  obtain data' encoders where b: "build_encoders data = Inr (data', encoders)"
    using build_encoders_total by blast
  from assms(1,2) b have es: "encoders ''struct_typ'' = Some \<lparr>classes = unique_python ys\<rparr>"
    by (rule build_encoders_object)
  from assms(1,3) b have eo: "encoders ''occ_type'' = Some \<lparr>classes = unique_python os\<rparr>"
    by (rule build_encoders_object)
  from struct_typ_resolves [OF assms(6)] obtain s where
    s: "struct_typ lang struct_display_choice = Inr s" and
    sm: "s \<in> set [''URM'', ''S1'', ''C4'', ''W1'', ''PC1'', ''C1'']"
    by (elim exE conjE) (rule that, assumption+)
  from sm have "s \<in> {''C1'', ''C4'', ''PC1'', ''S1'', ''URM'', ''W1''}"
    by (rule six_codes_member)
  with assms(4) have sy: "s \<in> set ys" by (rule subsetD)
  from occ_type_code_resolves [OF assms(7)] obtain c where
    c: "occ_type_code lang occ_choice = Inr c" and
    cm: "c \<in> set [''RES1'', ''COM1'', ''IND1'', ''AGR1'', ''EDU1'', ''REL1'', ''GOV1'']"
    by (elim exE conjE) (rule that, assumption+)
  from cm have "c \<in> {''RES1'', ''COM1'', ''IND1'', ''AGR1'', ''EDU1'', ''REL1'', ''GOV1''}"
    by (simp only: list.set)
  with assms(5) have co: "c \<in> set os" by (rule subsetD)
  from es sy have ks: "fst (encode encoders ''struct_typ'' s) = Inr (card {u \<in> set ys. u < s})"
    by (rule encode_fitted_known)
  from eo co have kc: "fst (encode encoders ''occ_type'' c) = Inr (card {u \<in> set os. u < c})"
    by (rule encode_fitted_known)
  let ?row = "[real (card {u \<in> set ys. u < s}), real (card {u \<in> set os. u < c}),
               real_of_int yb, real_of_int ns, m, d]"
  from ks kc have "X_array encoders s c yb ns m d = (Inr [?row], encoders)"
    by (rule X_array_ok)
  with s c have "form_array encoders lang struct_display_choice occ_choice yb ns m d =
      (Inr [?row], encoders)"
    by (simp only: form_array_resolved)
  with b s sy c co show ?thesis by (intro exI conjI)
qed

text \<open>
  The sample table with the English labels for a wooden frame and educational use.
\<close>

theorem form_choices_always_encode_witness:
  "distinct (map fst reference_sample) \<and>
   {''C1'', ''C4'', ''PC1'', ''S1'', ''URM'', ''W1''}
     \<subseteq> set [''URM'', ''C1'', ''W1'', ''URM'', ''S1'', ''C4'', ''PC1''] \<and>
   {''RES1'', ''COM1'', ''IND1'', ''AGR1'', ''EDU1'', ''REL1'', ''GOV1''}
     \<subseteq> set [''RES1'', ''COM1'', ''IND1'', ''AGR1'', ''EDU1'', ''REL1'', ''GOV1''] \<and>
   ''Wooden Frame (W1)'' \<in> set (struct_options ''en'') \<and>
   ''Educational'' \<in> set (occ_options ''en'') \<and>
   (\<exists>row. form_array sample_encoders ''en'' ''Wooden Frame (W1)'' ''Educational'' 2000 0 5 3 =
           (Inr [row], sample_encoders))"
proof -
  from form_choices_always_encode
    [OF reference_sample_distinct reference_sample_struct reference_sample_occ
        sample_struct_covers sample_occ_covers en_wood_option en_educational_option,
     of 2000 0 5 3]
  obtain data' encoders row where
    b: "build_encoders reference_sample = Inr (data', encoders)" and
    f: "form_array encoders ''en'' ''Wooden Frame (W1)'' ''Educational'' 2000 0 5 3 =
          (Inr [row], encoders)"
    by (elim exE conjE) (rule that, assumption+)
  from b have e: "encoders = sample_encoders"
    by (simp only: reference_sample_build sum.inject prod.inject)
  from f have "\<exists>row. form_array sample_encoders ''en'' ''Wooden Frame (W1)'' ''Educational''
                       2000 0 5 3 = (Inr [row], sample_encoders)"
    unfolding e by (rule exI)
  with reference_sample_distinct sample_struct_covers sample_occ_covers
    en_wood_option en_educational_option
  show ?thesis by (intro conjI)
qed

end
